theory Spec2Isabelle
  imports Main
begin

section \<open>Python values, exceptions and the external engine\<close>

text \<open>
  The program is \<^verbatim>\<open>mcp_playwright_tools.py\<close>: a singleton \<^verbatim>\<open>PlaywrightManager\<close> that owns one
  browser session, and a registry of tool functions that obtain the page from it. The
  browser engine, the clock, the file system and the process table are outside the
  program; they are modelled by an environment that answers every call, given the calls
  made so far. Tool invocations are modelled one at a time, each running to its end.
\<close>

text \<open>
  Arguments arrive as Python values. The scalar values a caller can pass are modelled:
  \<^verbatim>\<open>None\<close>, booleans, integers and strings (floats and containers are left out).
\<close>

datatype pyval = PNone | PBool bool | PInt int | PStr string

text \<open>Python truthiness: \<^verbatim>\<open>bool(v)\<close>.\<close>

fun truthy :: "pyval \<Rightarrow> bool" where
  "truthy PNone = False"
| "truthy (PBool b) = b"
| "truthy (PInt i) = (i \<noteq> 0)"
| "truthy (PStr s) = (s \<noteq> [])"

fun isinstance_str :: "pyval \<Rightarrow> bool" where
  "isinstance_str (PStr s) = True"
| "isinstance_str v = False"

text \<open>\<^verbatim>\<open>isinstance(v, int)\<close>: in Python \<^verbatim>\<open>bool\<close> is a subclass of \<^verbatim>\<open>int\<close>.\<close>

fun isinstance_int :: "pyval \<Rightarrow> bool" where
  "isinstance_int (PInt i) = True"
| "isinstance_int (PBool b) = True"
| "isinstance_int v = False"

definition digit_chr :: "nat \<Rightarrow> char" where
  "digit_chr n = ''0123456789'' ! (n mod 10)"

fun digits :: "nat \<Rightarrow> string" where
  "digits n = (if n < 10 then [digit_chr n] else digits (n div 10) @ [digit_chr n])"

declare digits.simps [simp del]

text \<open>\<^verbatim>\<open>str(v)\<close>, as an f-string formats a value.\<close>

fun py_str :: "pyval \<Rightarrow> string" where
  "py_str PNone = ''None''"
| "py_str (PBool b) = (if b then ''True'' else ''False'')"
| "py_str (PInt i) = (if i < 0 then ''-'' @ digits (nat (- i)) else digits (nat i))"
| "py_str (PStr s) = s"

text \<open>
  Converting an integer of more than 4300 decimal digits to a string raises
  \<^verbatim>\<open>ValueError\<close> (the default of \<^verbatim>\<open>sys.int_max_str_digits\<close>); the sign is not counted and
  a boolean is printed as a word.
\<close>

fun str_digits_ok :: "pyval \<Rightarrow> bool" where
  "str_digits_ok (PInt i) = (length (digits (nat \<bar>i\<bar>)) \<le> 4300)"
| "str_digits_ok v = True"

text \<open>
  Exceptions. \<open>EngineError\<close> is any exception raised by a call into the browser engine,
  the file system or the process table, carrying \<^verbatim>\<open>str(e)\<close>; \<open>ProcessError\<close> is
  \<^verbatim>\<open>psutil.NoSuchProcess\<close> or \<^verbatim>\<open>psutil.AccessDenied\<close>. All of them are subclasses of
  \<^verbatim>\<open>Exception\<close>, so \<^verbatim>\<open>except Exception\<close> catches each.
\<close>

datatype exn =
    EngineError string
  | ProcessError string
  | ValueError string
  | NameError string
  | TypeError string
  | AttributeError string

fun exn_str :: "exn \<Rightarrow> string" where
  "exn_str (EngineError s) = s"
| "exn_str (ProcessError s) = s"
| "exn_str (ValueError s) = s"
| "exn_str (NameError s) = s"
| "exn_str (TypeError s) = s"
| "exn_str (AttributeError s) = s"

type_synonym handle = nat

datatype engine = Chromium | Firefox | Webkit

text \<open>The scripts handed to \<^verbatim>\<open>page.evaluate\<close> and \<^verbatim>\<open>element.evaluate\<close>.\<close>

datatype script =
    ScrollTop
  | ScrollBottom
  | ScrollIntoView string
  | BodyInnerText
  | ScrollBy string
  | ClearStorage
  | OuterHTML

text \<open>
  Every call that leaves the program, with its receiver and arguments. Handles are the
  objects the engine returned (the Playwright driver, a browser, a context, a page, an
  element).
\<close>

datatype engine_op =
    Start
  | Launch handle engine bool
  | NewContext handle "(int \<times> int) option"
  | NewPage handle
  | PageClose handle
  | ContextClose handle
  | BrowserClose handle
  | Stop handle
  | Goto handle string
  | WaitForLoadState handle
  | PageFill handle string string
  | QuerySelectorAll handle string
  | GoBack handle
  | Reload handle
  | Click handle string
  | Pdf handle string bool "pyval option"
  | QuerySelector handle pyval
  | ElementScreenshot handle string
  | PageScreenshot handle string
  | Evaluate handle script
  | InnerHtml handle
  | InnerText handle
  | ElementFill handle string
  | KeyboardPress handle string
  | Content handle
  | Title handle
  | FileWrite pyval string
  | ClearCookies handle
  | Cookies handle
  | ProcessIter
  | Terminate nat

record datetime =
  year :: nat
  month :: nat
  day :: nat
  hour :: nat
  minute :: nat
  second :: nat

record proc =
  pid :: nat
  pname :: "string option"
  exe :: "string option"

text \<open>
  The environment. Each answer may depend on the calls made so far (the trace):
  \<open>raises\<close> says whether a call raises and with which exception, \<open>finds\<close> whether
  \<^verbatim>\<open>query_selector\<close> returns an element, \<open>counts\<close> how many elements
  \<^verbatim>\<open>query_selector_all\<close> returns, \<open>texts\<close> the string a call returns.
\<close>

record env =
  raises :: "engine_op list \<Rightarrow> engine_op \<Rightarrow> exn option"
  finds :: "engine_op list \<Rightarrow> engine_op \<Rightarrow> bool"
  counts :: "engine_op list \<Rightarrow> engine_op \<Rightarrow> nat"
  texts :: "engine_op list \<Rightarrow> engine_op \<Rightarrow> string"
  page_url :: "engine_op list \<Rightarrow> handle \<Rightarrow> string"
  now :: "engine_op list \<Rightarrow> datetime"
  tempdir :: string
  work_dir :: string
  processes :: "engine_op list \<Rightarrow> proc list"

section \<open>The session manager\<close>

text \<open>
  The fields of \<^verbatim>\<open>PlaywrightManager\<close>. The field \<^verbatim>\<open>context\<close> is named
  \<open>browser_context\<close> here. The resource fields hold \<^verbatim>\<open>None\<close> or an engine object;
  engine objects are truthy.
\<close>

record manager =
  browser_type :: engine
  headless :: bool
  viewport_width :: int
  viewport_height :: int
  playwright :: "handle option"
  browser :: "handle option"
  browser_context :: "handle option"
  page :: "handle option"

text \<open>
  \<^verbatim>\<open>pw_manager = PlaywrightManager(browser_type='chromium', headless=False,
  viewer_port=(1200, 900))\<close>: the module's only instance, as \<^verbatim>\<open>__init__\<close> leaves it.
\<close>

definition pw_manager :: manager where
  "pw_manager = \<lparr>browser_type = Chromium, headless = False,
     viewport_width = 1200, viewport_height = 900,
     playwright = None, browser = None, browser_context = None, page = None\<rparr>"

text \<open>
  A computation runs on the manager and the trace of calls made so far; it ends with a
  value or with an exception, and in both cases with the state it has reached.
\<close>

type_synonym state = "manager \<times> engine_op list"
type_synonym 'a io = "state \<Rightarrow> (exn + 'a) \<times> state"

definition io_return :: "'a \<Rightarrow> 'a io" where
  "io_return x = (\<lambda>s. (Inr x, s))"

definition io_raise :: "exn \<Rightarrow> 'a io" where
  "io_raise e = (\<lambda>s. (Inl e, s))"

definition io_bind :: "'a io \<Rightarrow> ('a \<Rightarrow> 'b io) \<Rightarrow> 'b io" where
  "io_bind f g = (\<lambda>s. case f s of (Inl e, s') \<Rightarrow> (Inl e, s') | (Inr x, s') \<Rightarrow> g x s')"

text \<open>\<^verbatim>\<open>try: f  except Exception as e: h(e)\<close>\<close>

definition io_try :: "'a io \<Rightarrow> (exn \<Rightarrow> 'a io) \<Rightarrow> 'a io" where
  "io_try f h = (\<lambda>s. case f s of (Inl e, s') \<Rightarrow> h e s' | (Inr x, s') \<Rightarrow> (Inr x, s'))"

definition io_get :: "manager io" where
  "io_get = (\<lambda>(m, tr). (Inr m, (m, tr)))"

definition io_modify :: "(manager \<Rightarrow> manager) \<Rightarrow> unit io" where
  "io_modify f = (\<lambda>(m, tr). (Inr (), (f m, tr)))"

text \<open>
  A call into the environment: it is appended to the trace, and either raises or
  returns the answer computed from the trace before the call.
\<close>

definition engine_ask :: "env \<Rightarrow> engine_op \<Rightarrow> (engine_op list \<Rightarrow> 'a) \<Rightarrow> 'a io" where
  "engine_ask E op answer = (\<lambda>(m, tr).
     case raises E tr op of
       Some e \<Rightarrow> (Inl e, (m, tr @ [op]))
     | None \<Rightarrow> (Inr (answer tr), (m, tr @ [op])))"

definition engine_call :: "env \<Rightarrow> engine_op \<Rightarrow> unit io" where
  "engine_call E op = engine_ask E op (\<lambda>tr. ())"

text \<open>A call that returns a new engine object: its handle is the position of the call.\<close>

definition engine_new :: "env \<Rightarrow> engine_op \<Rightarrow> handle io" where
  "engine_new E op = engine_ask E op length"

definition engine_find :: "env \<Rightarrow> engine_op \<Rightarrow> handle option io" where
  "engine_find E op = engine_ask E op (\<lambda>tr. if finds E tr op then Some (length tr) else None)"

definition engine_count :: "env \<Rightarrow> engine_op \<Rightarrow> nat io" where
  "engine_count E op = engine_ask E op (\<lambda>tr. counts E tr op)"

definition engine_text :: "env \<Rightarrow> engine_op \<Rightarrow> string io" where
  "engine_text E op = engine_ask E op (\<lambda>tr. texts E tr op)"

subsection \<open>\<^verbatim>\<open>ensure_browser\<close>\<close>

text \<open>\<^verbatim>\<open>if not self.playwright: self.playwright = await async_playwright().start()\<close>\<close>

definition ensure_playwright :: "env \<Rightarrow> unit io" where
  "ensure_playwright E = io_bind io_get (\<lambda>m.
     if playwright m = None
     then io_bind (engine_new E Start) (\<lambda>h. io_modify (\<lambda>m. m\<lparr>playwright := Some h\<rparr>))
     else io_return ())"

text \<open>
  \<^verbatim>\<open>if not self.browser:\<close> launch the configured browser, open a context with the
  configured viewport and a page in it. An attribute access on \<^verbatim>\<open>None\<close> raises
  \<^verbatim>\<open>AttributeError\<close>.
\<close>

definition ensure_launched :: "env \<Rightarrow> unit io" where
  "ensure_launched E = io_bind io_get (\<lambda>m.
     if browser m = None
     then (case playwright m of
             None \<Rightarrow> io_raise (AttributeError ''NoneType'')
           | Some pw \<Rightarrow>
               io_bind (engine_new E (Launch pw (browser_type m) (headless m))) (\<lambda>b.
               io_bind (io_modify (\<lambda>m. m\<lparr>browser := Some b\<rparr>)) (\<lambda>_.
               io_bind (engine_new E
                          (NewContext b (Some (viewport_width m, viewport_height m)))) (\<lambda>c.
               io_bind (io_modify (\<lambda>m. m\<lparr>browser_context := Some c\<rparr>)) (\<lambda>_.
               io_bind (engine_new E (NewPage c)) (\<lambda>p.
               io_modify (\<lambda>m. m\<lparr>page := Some p\<rparr>)))))))
     else io_return ())"

text \<open>\<^verbatim>\<open>if not self.context: self.context = await self.browser.new_context()\<close>\<close>

definition ensure_context :: "env \<Rightarrow> unit io" where
  "ensure_context E = io_bind io_get (\<lambda>m.
     if browser_context m = None
     then (case browser m of
             None \<Rightarrow> io_raise (AttributeError ''NoneType'')
           | Some b \<Rightarrow>
               io_bind (engine_new E (NewContext b None)) (\<lambda>c.
               io_modify (\<lambda>m. m\<lparr>browser_context := Some c\<rparr>)))
     else io_return ())"

text \<open>\<^verbatim>\<open>if not self.page: self.page = await self.context.new_page()\<close>\<close>

definition ensure_page :: "env \<Rightarrow> unit io" where
  "ensure_page E = io_bind io_get (\<lambda>m.
     if page m = None
     then (case browser_context m of
             None \<Rightarrow> io_raise (AttributeError ''NoneType'')
           | Some c \<Rightarrow>
               io_bind (engine_new E (NewPage c)) (\<lambda>p.
               io_modify (\<lambda>m. m\<lparr>page := Some p\<rparr>)))
     else io_return ())"

text \<open>
  \<^verbatim>\<open>ensure_browser\<close>: the four steps in the order of the source, then
  \<^verbatim>\<open>return self.page\<close>. The page is set when the last step has passed.
\<close>

definition ensure_browser :: "env \<Rightarrow> handle io" where
  "ensure_browser E =
     io_bind (ensure_playwright E) (\<lambda>_.
     io_bind (ensure_launched E) (\<lambda>_.
     io_bind (ensure_context E) (\<lambda>_.
     io_bind (ensure_page E) (\<lambda>_.
     io_bind io_get (\<lambda>m.
       case page m of
         Some p \<Rightarrow> io_return p
       | None \<Rightarrow> io_raise (AttributeError ''NoneType''))))))"

subsection \<open>\<^verbatim>\<open>close\<close>\<close>

definition close_page :: "env \<Rightarrow> unit io" where
  "close_page E = io_bind io_get (\<lambda>m.
     case page m of
       Some p \<Rightarrow> io_bind (engine_call E (PageClose p)) (\<lambda>_. io_modify (\<lambda>m. m\<lparr>page := None\<rparr>))
     | None \<Rightarrow> io_return ())"

definition close_context :: "env \<Rightarrow> unit io" where
  "close_context E = io_bind io_get (\<lambda>m.
     case browser_context m of
       Some c \<Rightarrow> io_bind (engine_call E (ContextClose c))
                   (\<lambda>_. io_modify (\<lambda>m. m\<lparr>browser_context := None\<rparr>))
     | None \<Rightarrow> io_return ())"

definition close_browser :: "env \<Rightarrow> unit io" where
  "close_browser E = io_bind io_get (\<lambda>m.
     case browser m of
       Some b \<Rightarrow> io_bind (engine_call E (BrowserClose b))
                   (\<lambda>_. io_modify (\<lambda>m. m\<lparr>browser := None\<rparr>))
     | None \<Rightarrow> io_return ())"

definition stop_playwright :: "env \<Rightarrow> unit io" where
  "stop_playwright E = io_bind io_get (\<lambda>m.
     case playwright m of
       Some pw \<Rightarrow> io_bind (engine_call E (Stop pw))
                    (\<lambda>_. io_modify (\<lambda>m. m\<lparr>playwright := None\<rparr>))
     | None \<Rightarrow> io_return ())"

text \<open>\<^verbatim>\<open>PlaywrightManager.close\<close>: page, context, browser, driver, in this order.\<close>

definition close :: "env \<Rightarrow> unit io" where
  "close E =
     io_bind (close_page E) (\<lambda>_.
     io_bind (close_context E) (\<lambda>_.
     io_bind (close_browser E) (\<lambda>_.
     stop_playwright E)))"

section \<open>Time stamps and paths\<close>

text \<open>
  \<^verbatim>\<open>datetime.now().strftime('%Y%m%d_%H%M%S')\<close>. A \<^verbatim>\<open>datetime\<close> has a year of at most four
  digits and two-digit fields, so each field is printed with its fixed width.
\<close>

definition two_digits :: "nat \<Rightarrow> string" where
  "two_digits n = [digit_chr (n div 10), digit_chr n]"

definition four_digits :: "nat \<Rightarrow> string" where
  "four_digits n = [digit_chr (n div 1000), digit_chr (n div 100), digit_chr (n div 10), digit_chr n]"

definition strftime :: "datetime \<Rightarrow> string" where
  "strftime d = four_digits (year d) @ two_digits (month d) @ two_digits (day d) @ ''_''
     @ two_digits (hour d) @ two_digits (minute d) @ two_digits (second d)"

definition timestamp :: "env \<Rightarrow> string io" where
  "timestamp E = (\<lambda>(m, tr). (Inr (strftime (now E tr)), (m, tr)))"

text \<open>\<^verbatim>\<open>os.path.join(a, b)\<close> on a POSIX system.\<close>

definition path_join :: "string \<Rightarrow> string \<Rightarrow> string" where
  "path_join a b =
     (if take 1 b = ''/'' then b
      else if a = [] \<or> last a = CHR ''/'' then a @ b
      else a @ ''/'' @ b)"

text \<open>The single quote inside the messages.\<close>

definition sq :: string where
  "sq = [CHR 0x27]"

definition nl :: string where
  "nl = [CHR 0x0A]"

section \<open>The tools\<close>

text \<open>
  Each tool is the function of the same name. Logging is left out, except for the one
  message whose formatting can raise (in \<^verbatim>\<open>browser_scroll_one_step\<close>), and so is
  \<^verbatim>\<open>asyncio.sleep\<close>, which neither raises nor touches the session. Where the source
  returns after a \<^verbatim>\<open>try\<close> block, the return of the message is written at the end of the
  body of the \<^verbatim>\<open>try\<close>: building the message raises nothing.
\<close>

definition browser_navigate :: "env \<Rightarrow> pyval \<Rightarrow> string io" where
  "browser_navigate E url =
     (if \<not> truthy url \<or> \<not> isinstance_str url
      then io_return ''Error: URL must be a non-empty string''
      else io_bind (ensure_browser E) (\<lambda>pg.
        io_try
          (io_bind (engine_call E (Goto pg (py_str url))) (\<lambda>_.
           io_bind (engine_call E (WaitForLoadState pg)) (\<lambda>_.
           io_return (''Navigated to '' @ py_str url))))
          (\<lambda>e. io_return (''Error navigating to '' @ py_str url @ '': '' @ exn_str e))))"

definition browser_close :: "env \<Rightarrow> string io" where
  "browser_close E = io_bind (close E) (\<lambda>_. io_return ''Browser closed'')"

text \<open>\<^verbatim>\<open>s.lower()\<close> on ASCII letters, and \<^verbatim>\<open>sub in s\<close>.\<close>

definition lower_chr :: "char \<Rightarrow> char" where
  "lower_chr c = (let n = (of_char c :: nat) in if 65 \<le> n \<and> n \<le> 90 then char_of (n + 32) else c)"

fun contains_str :: "string \<Rightarrow> string \<Rightarrow> bool" where
  "contains_str sub [] = (sub = [])"
| "contains_str sub (c # cs) = (take (length sub) (c # cs) = sub \<or> contains_str sub cs)"

definition is_playwright_chrome :: "proc \<Rightarrow> bool" where
  "is_playwright_chrome p =
     (case pname p of
        None \<Rightarrow> False
      | Some n \<Rightarrow> n \<noteq> [] \<and> contains_str ''chrome'' (map lower_chr n) \<and>
          (case exe p of
             None \<Rightarrow> False
           | Some x \<Rightarrow> x \<noteq> [] \<and> contains_str ''playwright'' (map lower_chr x)))"

text \<open>
  The loop over \<^verbatim>\<open>psutil.process_iter\<close>: the inner handler swallows
  \<^verbatim>\<open>NoSuchProcess\<close> and \<^verbatim>\<open>AccessDenied\<close> only.
\<close>

fun terminate_all :: "env \<Rightarrow> proc list \<Rightarrow> unit io" where
  "terminate_all E [] = io_return ()"
| "terminate_all E (p # ps) =
     io_bind
       (io_try
          (if is_playwright_chrome p then engine_call E (Terminate (pid p)) else io_return ())
          (\<lambda>e. case e of ProcessError msg \<Rightarrow> io_return () | _ \<Rightarrow> io_raise e))
       (\<lambda>_. terminate_all E ps)"

definition kill_all_chrome_instances :: "env \<Rightarrow> string io" where
  "kill_all_chrome_instances E =
     io_try
       (io_bind (engine_ask E ProcessIter (processes E)) (\<lambda>ps.
        io_bind (terminate_all E ps) (\<lambda>_.
        io_return ''All Chrome instances generated via Playwright have been terminated.'')))
       (\<lambda>e. io_return (''Failed to kill Chrome instances: '' @ exn_str e))"

definition browser_fill :: "env \<Rightarrow> pyval \<Rightarrow> pyval \<Rightarrow> string io" where
  "browser_fill E selector text =
     (if \<not> truthy selector \<or> \<not> isinstance_str selector
      then io_return ''Error: Selector must be a non-empty string''
      else if \<not> isinstance_str text
      then io_return ''Error: Text must be a string''
      else io_bind (ensure_browser E) (\<lambda>pg.
        io_try
          (io_bind (engine_call E (PageFill pg (py_str selector) (py_str text))) (\<lambda>_.
           io_return (''Filled text in element with selector '' @ sq @ py_str selector @ sq)))
          (\<lambda>e. io_return (''Could not fill element: '' @ exn_str e))))"

definition browser_find_by_xpath :: "env \<Rightarrow> pyval \<Rightarrow> string io" where
  "browser_find_by_xpath E xpath =
     (if \<not> truthy xpath \<or> \<not> isinstance_str xpath
      then io_return ''Error: XPath must be a non-empty string''
      else
        let x = (if take 2 (py_str xpath) \<noteq> ''//'' \<and> take 6 (py_str xpath) \<noteq> ''xpath=''
                 then ''xpath='' @ py_str xpath else py_str xpath)
        in io_bind (ensure_browser E) (\<lambda>pg.
          io_try
            (io_bind (engine_count E (QuerySelectorAll pg x)) (\<lambda>n.
             io_return (''Found '' @ digits n @ '' elements matching XPath '' @ sq @ x @ sq)))
            (\<lambda>e. io_return (''Error finding elements: '' @ exn_str e))))"

definition browser_go_back :: "env \<Rightarrow> string io" where
  "browser_go_back E =
     io_bind (ensure_browser E) (\<lambda>pg.
     io_bind (engine_call E (GoBack pg)) (\<lambda>_.
     io_return ''Navigated back''))"

definition browser_reload :: "env \<Rightarrow> string io" where
  "browser_reload E =
     io_bind (ensure_browser E) (\<lambda>pg.
     io_bind (engine_call E (Reload pg)) (\<lambda>_.
     io_return ''Page reloaded''))"

definition browser_click :: "env \<Rightarrow> pyval \<Rightarrow> string io" where
  "browser_click E selector =
     (if \<not> truthy selector \<or> \<not> isinstance_str selector
      then io_return ''Error: Selector must be a non-empty string''
      else io_bind (ensure_browser E) (\<lambda>pg.
        io_try
          (io_bind (engine_call E (Click pg (py_str selector))) (\<lambda>_.
           io_return (''Clicked element with selector '' @ sq @ py_str selector @ sq)))
          (\<lambda>e. io_return (''Could not click element: '' @ exn_str e))))"

text \<open>
  The first statement of \<^verbatim>\<open>browser_save_as_pdf\<close>:
  \<^verbatim>\<open>if pw_manager.browser_type != 'chromium' or not pw_manager.headless:\<close> close the
  session and assign \<^verbatim>\<open>browser_type = 'chromium'\<close> and \<^verbatim>\<open>headless = False\<close>.
\<close>

definition pdf_reconfigure :: "env \<Rightarrow> unit io" where
  "pdf_reconfigure E = io_bind io_get (\<lambda>m.
     if browser_type m \<noteq> Chromium \<or> \<not> headless m
     then io_bind (close E) (\<lambda>_.
          io_modify (\<lambda>m. m\<lparr>browser_type := Chromium, headless := False\<rparr>))
     else io_return ())"

definition browser_save_as_pdf :: "env \<Rightarrow> pyval \<Rightarrow> pyval \<Rightarrow> string io" where
  "browser_save_as_pdf E landscape format =
     io_bind (pdf_reconfigure E) (\<lambda>_.
     io_bind (ensure_browser E) (\<lambda>pg.
     io_bind (timestamp E) (\<lambda>ts.
       let file_name = path_join (tempdir E) (''page_'' @ ts @ ''.pdf'')
       in io_try
            (io_bind (engine_call E
                        (Pdf pg file_name (truthy landscape)
                           (if truthy format then Some format else None))) (\<lambda>_.
             io_return (''PDF saved to '' @ file_name)))
            (\<lambda>e. io_return (''Failed to generate PDF: '' @ exn_str e)))))"

text \<open>\<^verbatim>\<open>browser_screenshot\<close>: the parameter \<^verbatim>\<open>file_path\<close> is never read.\<close>

definition browser_screenshot :: "env \<Rightarrow> pyval \<Rightarrow> pyval \<Rightarrow> string io" where
  "browser_screenshot E selector file_path =
     io_bind (ensure_browser E) (\<lambda>pg.
     io_bind (timestamp E) (\<lambda>ts.
       let file_name = path_join (tempdir E) (''screenshot_'' @ ts @ ''.png'')
       in io_try
            (if truthy selector
             then io_bind (engine_find E (QuerySelector pg selector)) (\<lambda>element.
                    case element of
                      None \<Rightarrow> io_return (''Error: Could not find element with selector ''
                                 @ sq @ py_str selector @ sq)
                    | Some el \<Rightarrow>
                        io_bind (engine_call E (ElementScreenshot el file_name)) (\<lambda>_.
                        io_return (''Screenshot saved to '' @ file_name)))
             else io_bind (engine_call E (PageScreenshot pg file_name)) (\<lambda>_.
                  io_return (''Screenshot saved to '' @ file_name)))
            (\<lambda>e. io_return (''Failed to take screenshot: '' @ exn_str e))))"

definition browser_scroll_to_top :: "env \<Rightarrow> string io" where
  "browser_scroll_to_top E =
     io_bind (ensure_browser E) (\<lambda>pg.
       io_try
         (io_bind (engine_call E (Evaluate pg ScrollTop)) (\<lambda>_.
          io_return ''Scrolled to top of page''))
         (\<lambda>e. io_return (''Failed to scroll to top: '' @ exn_str e)))"

text \<open>The handler of \<^verbatim>\<open>browser_scroll_to_bottom\<close> ends with \<^verbatim>\<open>raise ValueError(error_msg)\<close>.\<close>

definition browser_scroll_to_bottom :: "env \<Rightarrow> string io" where
  "browser_scroll_to_bottom E =
     io_bind (ensure_browser E) (\<lambda>pg.
       io_try
         (io_bind (engine_call E (Evaluate pg ScrollBottom)) (\<lambda>_.
          io_return ''Scrolled to bottom of page''))
         (\<lambda>e. io_raise (ValueError (''Failed to scroll to bottom: '' @ exn_str e))))"

definition browser_scroll_to_element :: "env \<Rightarrow> pyval \<Rightarrow> string io" where
  "browser_scroll_to_element E selector =
     (if \<not> truthy selector \<or> \<not> isinstance_str selector
      then io_return ''Error: Selector must be a non-empty string''
      else io_bind (ensure_browser E) (\<lambda>pg.
        io_try
          (io_bind (engine_find E (QuerySelector pg selector)) (\<lambda>element.
             case element of
               None \<Rightarrow> io_return (''Error: No element found with selector: '' @ py_str selector)
             | Some el \<Rightarrow>
                 io_bind (engine_call E (Evaluate pg (ScrollIntoView (py_str selector)))) (\<lambda>_.
                 io_return (''Scrolled to element with selector '' @ sq @ py_str selector @ sq))))
          (\<lambda>e. io_return (''Failed to scroll to element: '' @ exn_str e))))"

text \<open>\<^verbatim>\<open>page.url\<close> is a property of the page object: reading it is no call.\<close>

definition get_current_url :: "env \<Rightarrow> string io" where
  "get_current_url E =
     io_bind (ensure_browser E) (\<lambda>pg. (\<lambda>(m, tr). (Inr (page_url E tr pg), (m, tr))))"

definition get_element_html :: "env \<Rightarrow> pyval \<Rightarrow> string io" where
  "get_element_html E xpath =
     (if \<not> truthy xpath \<or> \<not> isinstance_str xpath
      then io_return ''Error: XPath must be a non-empty string''
      else io_bind (ensure_browser E) (\<lambda>pg.
        io_try
          (io_bind (engine_find E (QuerySelector pg (PStr (''xpath='' @ py_str xpath)))) (\<lambda>element.
             case element of
               None \<Rightarrow> io_return (''Error: No element found with XPath: '' @ py_str xpath)
             | Some el \<Rightarrow> engine_text E (InnerHtml el)))
          (\<lambda>e. io_return (''Error getting element HTML: '' @ exn_str e))))"

definition get_element_text :: "env \<Rightarrow> pyval \<Rightarrow> string io" where
  "get_element_text E xpath =
     (if \<not> truthy xpath \<or> \<not> isinstance_str xpath
      then io_return ''Error: XPath must be a non-empty string''
      else io_bind (ensure_browser E) (\<lambda>pg.
        io_try
          (io_bind (engine_find E (QuerySelector pg (PStr (''xpath='' @ py_str xpath)))) (\<lambda>element.
             case element of
               None \<Rightarrow> io_return (''Error: No element found with XPath: '' @ py_str xpath)
             | Some el \<Rightarrow> engine_text E (InnerText el)))
          (\<lambda>e. io_return (''Error getting element text: '' @ exn_str e))))"

definition get_page_content :: "env \<Rightarrow> string io" where
  "get_page_content E =
     io_bind (ensure_browser E) (\<lambda>pg. engine_text E (Evaluate pg BodyInnerText))"

definition get_page_html :: "env \<Rightarrow> string io" where
  "get_page_html E = io_bind (ensure_browser E) (\<lambda>pg. engine_text E (Content pg))"

definition get_page_title :: "env \<Rightarrow> string io" where
  "get_page_title E = io_bind (ensure_browser E) (\<lambda>pg. engine_text E (Title pg))"

text \<open>The document that \<^verbatim>\<open>save_element_as_html\<close> writes around the element's markup.\<close>

definition full_html :: "string \<Rightarrow> string \<Rightarrow> string" where
  "full_html xpath html_content =
     ''<!DOCTYPE html>'' @ nl @
     ''        <html>'' @ nl @
     ''        <head>'' @ nl @
     ''            <meta charset='' @ sq @ ''utf-8'' @ sq @ ''>'' @ nl @
     ''            <title>Extracted Element HTML</title>'' @ nl @
     ''        </head>'' @ nl @
     ''        <body>'' @ nl @
     ''            <!-- Element with XPath: '' @ xpath @ '' -->'' @ nl @
     ''            '' @ html_content @ nl @
     ''        </body>'' @ nl @
     ''        </html>''"

definition save_element_as_html :: "env \<Rightarrow> pyval \<Rightarrow> pyval \<Rightarrow> string io" where
  "save_element_as_html E xpath file_path =
     (if \<not> truthy xpath \<or> \<not> isinstance_str xpath
      then io_return ''Error: XPath must be a non-empty string''
      else io_bind (ensure_browser E) (\<lambda>pg.
        io_bind (if \<not> truthy file_path
                 then io_bind (timestamp E) (\<lambda>ts.
                        io_return (PStr (path_join (work_dir E) (''element_'' @ ts @ ''.html''))))
                 else io_return file_path) (\<lambda>file_path.
        io_try
          (io_bind (engine_find E (QuerySelector pg (PStr (''xpath='' @ py_str xpath)))) (\<lambda>element.
             case element of
               None \<Rightarrow> io_return (''Error: No element found with XPath: '' @ py_str xpath)
             | Some el \<Rightarrow>
                 io_bind (engine_text E (Evaluate el OuterHTML)) (\<lambda>html_content.
                   if html_content = []
                   then io_return (''Error: Could not extract HTML from element with XPath: ''
                          @ py_str xpath)
                   else
                     io_bind (engine_call E
                                (FileWrite file_path (full_html (py_str xpath) html_content))) (\<lambda>_.
                     io_return (''Element HTML saved to '' @ py_str file_path)))))
          (\<lambda>e. io_return (''Failed to save element HTML: '' @ exn_str e)))))"

definition save_page_as_html :: "env \<Rightarrow> pyval \<Rightarrow> string io" where
  "save_page_as_html E file_path =
     io_bind (ensure_browser E) (\<lambda>pg.
     io_bind (if \<not> truthy file_path
              then io_bind (timestamp E) (\<lambda>ts.
                     io_return (PStr (path_join (work_dir E) (''page_'' @ ts @ ''.html''))))
              else io_return file_path) (\<lambda>file_path.
       io_try
         (io_bind (engine_text E (Content pg)) (\<lambda>html_content.
          io_bind (engine_call E (FileWrite file_path html_content)) (\<lambda>_.
          io_return (''HTML saved to '' @ py_str file_path))))
         (\<lambda>e. io_return (''Failed to save HTML: '' @ exn_str e))))"

text \<open>
  \<^verbatim>\<open>save_page_screenshot\<close>: a supplied path goes through \<^verbatim>\<open>os.path.join(file_path)\<close>
  before the \<^verbatim>\<open>try\<close> block; \<^verbatim>\<open>os.path.join\<close> raises \<^verbatim>\<open>TypeError\<close> on a value that is no
  path and returns a single string unchanged.
\<close>

definition save_page_screenshot :: "env \<Rightarrow> pyval \<Rightarrow> string io" where
  "save_page_screenshot E file_path =
     io_bind (ensure_browser E) (\<lambda>pg.
     io_bind (if \<not> truthy file_path
              then io_bind (timestamp E) (\<lambda>ts.
                     io_return (path_join (work_dir E) (''screenshot_'' @ ts @ ''.png'')))
              else (case file_path of
                      PStr s \<Rightarrow> io_return s
                    | _ \<Rightarrow> io_raise (TypeError ''expected str, bytes or os.PathLike object''))) (\<lambda>file_path.
       io_try
         (io_bind (engine_call E (PageScreenshot pg file_path)) (\<lambda>_.
          io_return (''Screenshot saved to '' @ file_path)))
         (\<lambda>e. io_return (''Failed to take screenshot: '' @ exn_str e))))"

definition clear_field :: "env \<Rightarrow> pyval \<Rightarrow> string io" where
  "clear_field E xpath =
     (if \<not> truthy xpath \<or> \<not> isinstance_str xpath
      then io_return ''Error: XPath must be a non-empty string''
      else io_bind (ensure_browser E) (\<lambda>pg.
        io_try
          (io_bind (engine_find E (QuerySelector pg (PStr (''xpath='' @ py_str xpath)))) (\<lambda>element.
             case element of
               None \<Rightarrow> io_return (''Error: No input field found with XPath: '' @ py_str xpath)
             | Some el \<Rightarrow>
                 io_bind (engine_call E (ElementFill el [])) (\<lambda>_.
                 io_return (''Cleared content of input field with XPath: '' @ py_str xpath))))
          (\<lambda>e. io_return (''Failed to clear input field: '' @ exn_str e))))"

definition browser_press_key :: "env \<Rightarrow> pyval \<Rightarrow> string io" where
  "browser_press_key E key =
     (if \<not> truthy key \<or> \<not> isinstance_str key
      then io_return ''Error: Key must be a non-empty string''
      else io_bind (ensure_browser E) (\<lambda>pg.
        io_try
          (io_bind (engine_call E (KeyboardPress pg (py_str key))) (\<lambda>_.
           io_return (''Pressed key '' @ py_str key)))
          (\<lambda>e. io_return (''Error pressing key: '' @ exn_str e))))"

text \<open>
  \<^verbatim>\<open>f'{v}'\<close>: the formatted value, or the \<^verbatim>\<open>ValueError\<close> of the conversion.
\<close>

definition fstring :: "pyval \<Rightarrow> string io" where
  "fstring v =
     (if str_digits_ok v then io_return (py_str v)
      else io_raise (ValueError ''Exceeds the limit (4300 digits) for integer string conversion''))"

text \<open>
  \<^verbatim>\<open>browser_scroll_one_step\<close> formats \<^verbatim>\<open>step\<close> three times: for
  \<^verbatim>\<open>logger.info(f'Scrolling the page by {step} pixels')\<close> before the \<^verbatim>\<open>try\<close> block, and
  inside it for the script and for the result.
\<close>

definition browser_scroll_one_step :: "env \<Rightarrow> pyval \<Rightarrow> string io" where
  "browser_scroll_one_step E step =
     (if \<not> isinstance_int step
      then io_return ''Error: Step must be an integer''
      else io_bind (ensure_browser E) (\<lambda>pg.
        io_bind (fstring step) (\<lambda>logged.
        io_try
          (io_bind (fstring step) (\<lambda>pixels.
           io_bind (engine_call E (Evaluate pg (ScrollBy pixels))) (\<lambda>_.
           io_bind (fstring step) (\<lambda>pixels.
           io_return (''Scrolled the page by '' @ pixels @ '' pixels'')))))
          (\<lambda>e. io_return (''Failed to scroll the page: '' @ exn_str e)))))"

definition clear_browser_data :: "env \<Rightarrow> string io" where
  "clear_browser_data E =
     io_bind (ensure_browser E) (\<lambda>pg.
     io_bind (engine_call E (ClearCookies pg)) (\<lambda>_.
     io_bind (engine_call E (Evaluate pg ClearStorage)) (\<lambda>_.
     io_return ''Browser data cleared'')))"

text \<open>
  \<^verbatim>\<open>get_cookies\<close> ends with \<^verbatim>\<open>return json.dumps(cookies, indent=4)\<close>, and the module never
  imports \<^verbatim>\<open>json\<close>: once the cookies are read, looking the name up raises \<^verbatim>\<open>NameError\<close>.
\<close>

definition get_cookies :: "env \<Rightarrow> string io" where
  "get_cookies E =
     io_bind (ensure_browser E) (\<lambda>pg.
     io_bind (engine_text E (Cookies pg)) (\<lambda>cookies.
     io_raise (NameError (''name '' @ sq @ ''json'' @ sq @ '' is not defined''))))"

section \<open>The registry\<close>

text \<open>The tools registered with \<^verbatim>\<open>@mcp.tool\<close>, each with its arguments.\<close>

datatype action =
    Browser_Navigate pyval
  | Browser_Close
  | Kill_All_Chrome_Instances
  | Browser_Fill pyval pyval
  | Browser_Find_By_XPath pyval
  | Browser_Go_Back
  | Browser_Reload
  | Browser_Click pyval
  | Browser_Save_As_PDF pyval pyval
  | Browser_Screenshot pyval pyval
  | Browser_Scroll_To_Top
  | Browser_Scroll_To_Bottom
  | Browser_Scroll_To_Element pyval
  | Get_Current_URL
  | Get_Element_HTML pyval
  | Get_Element_Text pyval
  | Get_Page_Content
  | Get_Page_HTML
  | Get_Page_Title
  | Save_Element_As_HTML pyval pyval
  | Save_Page_As_HTML pyval
  | Save_Page_Screenshot pyval
  | Clear_Field pyval
  | Browser_Press_Key pyval
  | Browser_Scroll_One_Step pyval
  | Clear_Browser_Data
  | Get_Cookies

fun dispatch :: "env \<Rightarrow> action \<Rightarrow> string io" where
  "dispatch E (Browser_Navigate url) = browser_navigate E url"
| "dispatch E Browser_Close = browser_close E"
| "dispatch E Kill_All_Chrome_Instances = kill_all_chrome_instances E"
| "dispatch E (Browser_Fill selector text) = browser_fill E selector text"
| "dispatch E (Browser_Find_By_XPath xpath) = browser_find_by_xpath E xpath"
| "dispatch E Browser_Go_Back = browser_go_back E"
| "dispatch E Browser_Reload = browser_reload E"
| "dispatch E (Browser_Click selector) = browser_click E selector"
| "dispatch E (Browser_Save_As_PDF landscape format) = browser_save_as_pdf E landscape format"
| "dispatch E (Browser_Screenshot selector file_path) = browser_screenshot E selector file_path"
| "dispatch E Browser_Scroll_To_Top = browser_scroll_to_top E"
| "dispatch E Browser_Scroll_To_Bottom = browser_scroll_to_bottom E"
| "dispatch E (Browser_Scroll_To_Element selector) = browser_scroll_to_element E selector"
| "dispatch E Get_Current_URL = get_current_url E"
| "dispatch E (Get_Element_HTML xpath) = get_element_html E xpath"
| "dispatch E (Get_Element_Text xpath) = get_element_text E xpath"
| "dispatch E Get_Page_Content = get_page_content E"
| "dispatch E Get_Page_HTML = get_page_html E"
| "dispatch E Get_Page_Title = get_page_title E"
| "dispatch E (Save_Element_As_HTML xpath file_path) = save_element_as_html E xpath file_path"
| "dispatch E (Save_Page_As_HTML file_path) = save_page_as_html E file_path"
| "dispatch E (Save_Page_Screenshot file_path) = save_page_screenshot E file_path"
| "dispatch E (Clear_Field xpath) = clear_field E xpath"
| "dispatch E (Browser_Press_Key key) = browser_press_key E key"
| "dispatch E (Browser_Scroll_One_Step step) = browser_scroll_one_step E step"
| "dispatch E Clear_Browser_Data = clear_browser_data E"
| "dispatch E Get_Cookies = get_cookies E"

section \<open>Notions the properties are stated with\<close>

definition session_empty :: "manager \<Rightarrow> bool" where
  "session_empty m =
     (page m = None \<and> browser_context m = None \<and> browser m = None \<and> playwright m = None)"

text \<open>The calls that build and tear down the session.\<close>

fun lifecycle_op :: "engine_op \<Rightarrow> bool" where
  "lifecycle_op Start = True"
| "lifecycle_op (Launch pw t h) = True"
| "lifecycle_op (NewContext b v) = True"
| "lifecycle_op (NewPage c) = True"
| "lifecycle_op (PageClose p) = True"
| "lifecycle_op (ContextClose c) = True"
| "lifecycle_op (BrowserClose b) = True"
| "lifecycle_op (Stop pw) = True"
| "lifecycle_op other = False"

definition lifecycle_ok :: "env \<Rightarrow> bool" where
  "lifecycle_ok E = (\<forall>tr op. lifecycle_op op \<longrightarrow> raises E tr op = None)"

text \<open>The calls that \<^verbatim>\<open>close\<close> makes.\<close>

fun teardown_op :: "engine_op \<Rightarrow> bool" where
  "teardown_op (PageClose p) = True"
| "teardown_op (ContextClose c) = True"
| "teardown_op (BrowserClose b) = True"
| "teardown_op (Stop pw) = True"
| "teardown_op other = False"

text \<open>A computation that ends with a value from every state: no exception leaves it.\<close>

definition returns :: "'a io \<Rightarrow> bool" where
  "returns c = (\<forall>s. \<exists>r s'. c s = (Inr r, s'))"

text \<open>
  The tools, with the arguments, for which every exception of the page, the file system
  and the process table comes back as a message. \<^verbatim>\<open>Save-Page-Screenshot\<close> is one for a
  path that is absent or a string, \<^verbatim>\<open>Browser-Scroll-One-Step\<close> for a step that can be
  printed. \<^verbatim>\<open>Browser-Save-As-PDF\<close> and \<^verbatim>\<open>Browser-Screenshot\<close> are not marked: between
  \<^verbatim>\<open>ensure_browser\<close> and their \<^verbatim>\<open>try\<close> block they call \<^verbatim>\<open>tempfile.gettempdir()\<close>, which
  raises where no temporary directory can be used, while the environment here always has
  one.
\<close>

fun contained :: "action \<Rightarrow> bool" where
  "contained Browser_Go_Back = False"
| "contained Browser_Reload = False"
| "contained Browser_Scroll_To_Bottom = False"
| "contained Get_Page_Content = False"
| "contained Get_Page_HTML = False"
| "contained Get_Page_Title = False"
| "contained Clear_Browser_Data = False"
| "contained Get_Cookies = False"
| "contained (Browser_Save_As_PDF landscape format) = False"
| "contained (Browser_Screenshot selector file_path) = False"
| "contained (Save_Page_Screenshot file_path) = (\<not> truthy file_path \<or> isinstance_str file_path)"
| "contained (Browser_Scroll_One_Step step) = str_digits_ok step"
| "contained other = True"

definition nonempty_string :: "pyval \<Rightarrow> bool" where
  "nonempty_string v = (case v of PStr s \<Rightarrow> s \<noteq> [] | _ \<Rightarrow> False)"

text \<open>
  A malformed required argument: a selector, URL, XPath or key that is not a non-empty
  string, a text that is not a string, a step that is not an integer.
\<close>

fun malformed :: "action \<Rightarrow> bool" where
  "malformed (Browser_Navigate url) = (\<not> nonempty_string url)"
| "malformed (Browser_Fill selector text) = (\<not> nonempty_string selector \<or> \<not> isinstance_str text)"
| "malformed (Browser_Find_By_XPath xpath) = (\<not> nonempty_string xpath)"
| "malformed (Browser_Click selector) = (\<not> nonempty_string selector)"
| "malformed (Browser_Scroll_To_Element selector) = (\<not> nonempty_string selector)"
| "malformed (Get_Element_HTML xpath) = (\<not> nonempty_string xpath)"
| "malformed (Get_Element_Text xpath) = (\<not> nonempty_string xpath)"
| "malformed (Save_Element_As_HTML xpath file_path) = (\<not> nonempty_string xpath)"
| "malformed (Clear_Field xpath) = (\<not> nonempty_string xpath)"
| "malformed (Browser_Press_Key key) = (\<not> nonempty_string key)"
| "malformed (Browser_Scroll_One_Step step) = (\<not> isinstance_int step)"
| "malformed other = False"

text \<open>The tools whose first call, once the arguments are accepted, is \<^verbatim>\<open>ensure_browser\<close>.\<close>

fun acquires_first :: "action \<Rightarrow> bool" where
  "acquires_first Browser_Close = False"
| "acquires_first Kill_All_Chrome_Instances = False"
| "acquires_first (Browser_Save_As_PDF landscape format) = False"
| "acquires_first other = True"

text \<open>\<open>n\<close> calls of \<^verbatim>\<open>ensure_browser\<close> in a row, with the pages they return.\<close>

fun acquire_times :: "nat \<Rightarrow> env \<Rightarrow> handle list io" where
  "acquire_times 0 E = io_return []"
| "acquire_times (Suc n) E =
     io_bind (ensure_browser E) (\<lambda>p.
     io_bind (acquire_times n E) (\<lambda>ps.
     io_return (p # ps)))"

text \<open>
  \<^verbatim>\<open>os.path.basename\<close>, and a path that is a single file name joined to a directory.
\<close>

definition basename :: "string \<Rightarrow> string" where
  "basename p = rev (takeWhile (\<lambda>c. c \<noteq> CHR ''/'') (rev p))"

definition lies_in :: "string \<Rightarrow> string \<Rightarrow> bool" where
  "lies_in d p = (basename p \<noteq> [] \<and> p = path_join d (basename p))"

subsection \<open>Concrete environments and sessions\<close>

text \<open>
  An environment in which no call raises, no selector matches, the clock shows
  2024-01-02 03:04:05, the temporary directory is \<^verbatim>\<open>/tmp\<close> and the module lies in
  \<^verbatim>\<open>/srv/app\<close>.
\<close>

definition quiet_env :: env where
  "quiet_env = \<lparr>raises = (\<lambda>tr op. None), finds = (\<lambda>tr op. False), counts = (\<lambda>tr op. 0),
     texts = (\<lambda>tr op. []), page_url = (\<lambda>tr p. ''about:blank''),
     now = (\<lambda>tr. \<lparr>year = 2024, month = 1, day = 2, hour = 3, minute = 4, second = 5\<rparr>),
     tempdir = ''/tmp'', work_dir = ''/srv/app'',
     processes = (\<lambda>tr. [])\<rparr>"

text \<open>The session as the first \<^verbatim>\<open>ensure_browser\<close> leaves it, and the calls that built it.\<close>

definition ready_manager :: manager where
  "ready_manager = pw_manager\<lparr>playwright := Some 0, browser := Some 1,
     browser_context := Some 2, page := Some 3\<rparr>"

definition ready_trace :: "engine_op list" where
  "ready_trace = [Start, Launch 0 Chromium False, NewContext 1 (Some (1200, 900)), NewPage 2]"

text \<open>Environments in which one kind of call fails and every other call succeeds.\<close>

definition start_fails_env :: env where
  "start_fails_env = quiet_env\<lparr>raises := (\<lambda>tr op.
     case op of Start \<Rightarrow> Some (EngineError ''Executable does not exist'') | _ \<Rightarrow> None)\<rparr>"

definition page_close_fails_env :: env where
  "page_close_fails_env = quiet_env\<lparr>raises := (\<lambda>tr op.
     case op of PageClose p \<Rightarrow> Some (EngineError ''Connection closed'') | _ \<Rightarrow> None)\<rparr>"

definition context_close_fails_env :: env where
  "context_close_fails_env = quiet_env\<lparr>raises := (\<lambda>tr op.
     case op of ContextClose c \<Rightarrow> Some (EngineError ''Connection closed'') | _ \<Rightarrow> None)\<rparr>"

text \<open>No element matches, and the engine's own click and fill give up with a timeout.\<close>

definition no_match_env :: env where
  "no_match_env = quiet_env\<lparr>raises := (\<lambda>tr op.
     case op of
       Click p sel \<Rightarrow> Some (EngineError ''Timeout 5000ms exceeded.'')
     | PageFill p sel t \<Rightarrow> Some (EngineError ''Timeout 30000ms exceeded.'')
     | _ \<Rightarrow> None)\<rparr>"

text \<open>Every query finds an element, and every call that returns text returns a paragraph.\<close>

definition match_env :: env where
  "match_env = quiet_env\<lparr>finds := (\<lambda>tr op. True), texts := (\<lambda>tr op. ''<p>x</p>'')\<rparr>"

text \<open>An engine that rejects a selector that is no string.\<close>

definition strict_env :: env where
  "strict_env = quiet_env\<lparr>raises := (\<lambda>tr op.
     case op of
       QuerySelector p v \<Rightarrow>
         (if isinstance_str v then None
          else Some (EngineError ''selector: expected string, got number''))
     | _ \<Rightarrow> None)\<rparr>"

text \<open>A page whose \<^verbatim>\<open>go_back\<close> raises.\<close>

definition go_back_fails_env :: env where
  "go_back_fails_env = quiet_env\<lparr>raises := (\<lambda>tr op.
     case op of GoBack p \<Rightarrow> Some (EngineError ''Timeout 30000ms exceeded.'') | _ \<Rightarrow> None)\<rparr>"

section \<open>Properties of the session manager\<close>

lemmas io_defs = io_bind_def io_return_def io_raise_def io_try_def io_get_def io_modify_def
  engine_ask_def engine_call_def engine_new_def engine_find_def engine_count_def engine_text_def
  timestamp_def

lemmas ensure_defs = ensure_browser_def ensure_playwright_def ensure_launched_def
  ensure_context_def ensure_page_def

lemma io_bind_Inr:
  "io_bind f g s = (Inr y, s'') \<Longrightarrow> \<exists>x s'. f s = (Inr x, s') \<and> g x s' = (Inr y, s'')"
  by (auto simp: io_bind_def split: prod.splits sum.splits)

lemma ensure_playwright_Inr:
  "ensure_playwright E (m, tr) = (Inr u, (m', tr')) \<Longrightarrow>
     playwright m' \<noteq> None \<and> browser m' = browser m \<and>
     browser_context m' = browser_context m \<and> page m' = page m"
  by (auto simp: ensure_playwright_def io_defs split: option.splits if_splits)

lemma ensure_launched_Inr:
  "ensure_launched E (m, tr) = (Inr u, (m', tr')) \<Longrightarrow> playwright m \<noteq> None \<Longrightarrow>
     playwright m' \<noteq> None \<and> browser m' \<noteq> None"
  by (auto simp: ensure_launched_def io_defs split: option.splits if_splits)

lemma ensure_context_Inr:
  "ensure_context E (m, tr) = (Inr u, (m', tr')) \<Longrightarrow>
     browser_context m' \<noteq> None \<and> playwright m' = playwright m \<and> browser m' = browser m"
  by (auto simp: ensure_context_def io_defs split: option.splits if_splits)

lemma ensure_page_Inr:
  "ensure_page E (m, tr) = (Inr u, (m', tr')) \<Longrightarrow>
     page m' \<noteq> None \<and> playwright m' = playwright m \<and> browser m' = browser m \<and>
     browser_context m' = browser_context m"
  by (auto simp: ensure_page_def io_defs split: option.splits if_splits)

lemma io_bind_InrE:
  assumes "io_bind f g s = (Inr y, s'')"
  obtains x s' where "f s = (Inr x, s')" and "g x s' = (Inr y, s'')"
  using assms by (auto simp: io_bind_def split: prod.splits sum.splits)

lemma return_page_Inr:
  "io_bind io_get (\<lambda>m. case page m of Some p \<Rightarrow> io_return p
       | None \<Rightarrow> io_raise (AttributeError ''NoneType'')) (m, tr) = (Inr p, (m', tr'))
   \<Longrightarrow> m' = m \<and> page m = Some p"
  by (cases "page m") (simp_all add: io_bind_def io_get_def io_return_def io_raise_def)

text \<open>When \<^verbatim>\<open>ensure_browser\<close> returns, all four resources are present.\<close>

lemma ensure_browser_Inr:
  assumes "ensure_browser E (m, tr) = (Inr p, (m', tr'))"
  shows "page m' = Some p \<and> playwright m' \<noteq> None \<and> browser m' \<noteq> None \<and>
         browser_context m' \<noteq> None"
proof -
  from assms[unfolded ensure_browser_def]
  obtain u1 s1 where a1: "ensure_playwright E (m, tr) = (Inr u1, s1)"
    and r1: "io_bind (ensure_launched E) (\<lambda>_. io_bind (ensure_context E) (\<lambda>_.
               io_bind (ensure_page E) (\<lambda>_. io_bind io_get (\<lambda>m. case page m of
                 Some p \<Rightarrow> io_return p | None \<Rightarrow> io_raise (AttributeError ''NoneType''))))) s1
             = (Inr p, (m', tr'))"
    by (rule io_bind_InrE)
  from r1 obtain u2 s2 where a2: "ensure_launched E s1 = (Inr u2, s2)"
    and r2: "io_bind (ensure_context E) (\<lambda>_.
               io_bind (ensure_page E) (\<lambda>_. io_bind io_get (\<lambda>m. case page m of
                 Some p \<Rightarrow> io_return p | None \<Rightarrow> io_raise (AttributeError ''NoneType'')))) s2
             = (Inr p, (m', tr'))"
    by (rule io_bind_InrE)
  from r2 obtain u3 s3 where a3: "ensure_context E s2 = (Inr u3, s3)"
    and r3: "io_bind (ensure_page E) (\<lambda>_. io_bind io_get (\<lambda>m. case page m of
                 Some p \<Rightarrow> io_return p | None \<Rightarrow> io_raise (AttributeError ''NoneType''))) s3
             = (Inr p, (m', tr'))"
    by (rule io_bind_InrE)
  from r3 obtain u4 s4 where a4: "ensure_page E s3 = (Inr u4, s4)"
    and r4: "io_bind io_get (\<lambda>m. case page m of
                 Some p \<Rightarrow> io_return p | None \<Rightarrow> io_raise (AttributeError ''NoneType'')) s4
             = (Inr p, (m', tr'))"
    by (rule io_bind_InrE)
  obtain m1 t1 where s1: "s1 = (m1, t1)" by (cases s1)
  obtain m2 t2 where s2: "s2 = (m2, t2)" by (cases s2)
  obtain m3 t3 where s3: "s3 = (m3, t3)" by (cases s3)
  obtain m4 t4 where s4: "s4 = (m4, t4)" by (cases s4)
  from r4 have e: "m' = m4 \<and> page m4 = Some p"
    unfolding s4 by (rule return_page_Inr)
  from a1 have p1: "playwright m1 \<noteq> None"
    unfolding s1 by (simp add: ensure_playwright_Inr)
  from a2 p1 have p2: "playwright m2 \<noteq> None \<and> browser m2 \<noteq> None"
    unfolding s1 s2 by (rule ensure_launched_Inr)
  from a3 have q3: "browser_context m3 \<noteq> None \<and> playwright m3 = playwright m2 \<and>
      browser m3 = browser m2"
    unfolding s2 s3 by (rule ensure_context_Inr)
  from a4 have q4: "page m4 \<noteq> None \<and> playwright m4 = playwright m3 \<and>
      browser m4 = browser m3 \<and> browser_context m4 = browser_context m3"
    unfolding s3 s4 by (rule ensure_page_Inr)
  from e p2 q3 q4 show ?thesis by simp
qed

text \<open>On a session with all four resources, \<^verbatim>\<open>ensure_browser\<close> makes no call.\<close>

lemma ensure_browser_ready:
  "playwright m = Some a \<Longrightarrow> browser m = Some b \<Longrightarrow> browser_context m = Some c \<Longrightarrow>
   page m = Some p \<Longrightarrow> ensure_browser E (m, tr) = (Inr p, (m, tr))"
  by (simp add: ensure_defs io_defs)

lemma ensure_browser_again:
  assumes "ensure_browser E s = (Inr p, s1)"
  shows "ensure_browser E s1 = (Inr p, s1)"
proof -
  obtain m tr where s: "s = (m, tr)" by (cases s)
  obtain m1 t1 where s1: "s1 = (m1, t1)" by (cases s1)
  from ensure_browser_Inr[of E m tr p m1 t1] assms s s1
  obtain a b c where "playwright m1 = Some a" "browser m1 = Some b"
    "browser_context m1 = Some c" "page m1 = Some p"
    by auto
  then show ?thesis unfolding s1 by (rule ensure_browser_ready)
qed

lemma acquire_times_ready:
  "ensure_browser E s1 = (Inr p, s1) \<Longrightarrow> acquire_times n E s1 = (Inr (replicate n p), s1)"
  by (induction n) (simp_all add: io_bind_def io_return_def)

lemma ensure_browser_fresh:
  "ensure_browser quiet_env (pw_manager, []) = (Inr 3, (ready_manager, ready_trace))"
  by (simp add: ensure_defs io_defs quiet_env_def pw_manager_def ready_manager_def
      ready_trace_def)

text \<open>
  C4. Once a first call of \<^verbatim>\<open>ensure_browser\<close> has returned a page, any number of calls in
  a row return that same page and end in the state the first call left: the same driver,
  browser, context and page, all present, and a trace with no further call, so nothing
  is created a second time.
\<close>

theorem acquire_idempotent:
  assumes "ensure_browser E s = (Inr p, s1)"
  shows "acquire_times (Suc n) E s = (Inr (replicate (Suc n) p), s1) \<and>
         page (fst s1) = Some p \<and> playwright (fst s1) \<noteq> None \<and>
         browser (fst s1) \<noteq> None \<and> browser_context (fst s1) \<noteq> None"
proof -
  have again: "ensure_browser E s1 = (Inr p, s1)"
    using assms by (rule ensure_browser_again)
  have rest: "acquire_times n E s1 = (Inr (replicate n p), s1)"
    using again by (rule acquire_times_ready)
  have calls: "acquire_times (Suc n) E s = (Inr (replicate (Suc n) p), s1)"
    using assms rest by (simp add: io_bind_def io_return_def)
  obtain m tr where s: "s = (m, tr)" by (cases s)
  obtain m1 t1 where s1: "s1 = (m1, t1)" by (cases s1)
  from ensure_browser_Inr[of E m tr p m1 t1] assms s s1 calls show ?thesis by simp
qed

theorem acquire_idempotent_witness:
  "ensure_browser quiet_env (pw_manager, []) = (Inr 3, (ready_manager, ready_trace)) \<and>
   acquire_times (Suc 2) quiet_env (pw_manager, [])
     = (Inr [3, 3, 3], (ready_manager, ready_trace)) \<and>
   page ready_manager = Some 3"
proof -
  have h: "ensure_browser quiet_env (pw_manager, []) = (Inr 3, (ready_manager, ready_trace))"
    by (rule ensure_browser_fresh)
  show ?thesis using h acquire_idempotent [OF h, of 2] by (simp add: numeral_2_eq_2)
qed

subsection \<open>Teardown\<close>

lemma close_page_cases:
  "close_page E (m, tr) =
     (case page m of
        None \<Rightarrow> (Inr (), (m, tr))
      | Some p \<Rightarrow> (case raises E tr (PageClose p) of
                   Some e \<Rightarrow> (Inl e, (m, tr @ [PageClose p]))
                 | None \<Rightarrow> (Inr (), (m\<lparr>page := None\<rparr>, tr @ [PageClose p]))))"
  by (simp add: close_page_def io_defs split: option.splits)

lemma close_context_cases:
  "close_context E (m, tr) =
     (case browser_context m of
        None \<Rightarrow> (Inr (), (m, tr))
      | Some c \<Rightarrow> (case raises E tr (ContextClose c) of
                   Some e \<Rightarrow> (Inl e, (m, tr @ [ContextClose c]))
                 | None \<Rightarrow> (Inr (), (m\<lparr>browser_context := None\<rparr>, tr @ [ContextClose c]))))"
  by (simp add: close_context_def io_defs split: option.splits)

lemma close_browser_cases:
  "close_browser E (m, tr) =
     (case browser m of
        None \<Rightarrow> (Inr (), (m, tr))
      | Some b \<Rightarrow> (case raises E tr (BrowserClose b) of
                   Some e \<Rightarrow> (Inl e, (m, tr @ [BrowserClose b]))
                 | None \<Rightarrow> (Inr (), (m\<lparr>browser := None\<rparr>, tr @ [BrowserClose b]))))"
  by (simp add: close_browser_def io_defs split: option.splits)

lemma stop_playwright_cases:
  "stop_playwright E (m, tr) =
     (case playwright m of
        None \<Rightarrow> (Inr (), (m, tr))
      | Some pw \<Rightarrow> (case raises E tr (Stop pw) of
                   Some e \<Rightarrow> (Inl e, (m, tr @ [Stop pw]))
                 | None \<Rightarrow> (Inr (), (m\<lparr>playwright := None\<rparr>, tr @ [Stop pw]))))"
  by (simp add: stop_playwright_def io_defs split: option.splits)

lemmas close_cases = close_page_cases close_context_cases close_browser_cases
  stop_playwright_cases

lemma close_empty:
  "session_empty m \<Longrightarrow> close E (m, tr) = (Inr (), (m, tr))"
  by (simp add: close_def io_bind_def close_cases session_empty_def)

lemma close_Inr:
  "close E (m, tr) = (Inr u, (m', tr')) \<Longrightarrow> session_empty m'"
  by (auto simp: close_def io_bind_def close_cases session_empty_def split: option.splits)

lemma close_total:
  assumes "\<forall>tr op. teardown_op op \<longrightarrow> raises E tr op = None"
  shows "\<exists>s'. close E (m, tr) = (Inr (), s')"
  using assms by (simp add: close_def io_bind_def close_cases split: option.splits)

lemma browser_close_result:
  "browser_close E s = (case close E s of (Inl e, s') \<Rightarrow> (Inl e, s')
                        | (Inr u, s') \<Rightarrow> (Inr ''Browser closed'', s'))"
  by (simp add: browser_close_def io_bind_def io_return_def)

lemma browser_close_ready:
  "browser_close quiet_env (ready_manager, ready_trace) =
     (Inr ''Browser closed'',
      (pw_manager, ready_trace @ [PageClose 3, ContextClose 2, BrowserClose 1, Stop 0]))"
  by (simp add: browser_close_result close_def io_bind_def close_cases quiet_env_def
      ready_manager_def pw_manager_def)

lemma close_ready:
  "close quiet_env (ready_manager, ready_trace) =
     (Inr (), (pw_manager, ready_trace @ [PageClose 3, ContextClose 2, BrowserClose 1, Stop 0]))"
  by (simp add: close_def io_bind_def close_cases quiet_env_def ready_manager_def pw_manager_def)

text \<open>
  C5 (as amended). \<^verbatim>\<open>close\<close> on an empty session makes no call, returns and leaves the
  session empty, and the tool returns its confirmation. When a call of the tool returns,
  it returns the confirmation and leaves the session empty, and the call that follows
  makes no call to the engine and returns the confirmation again. A first call returns
  whenever no close or stop operation of the engine raises.
\<close>

theorem close_twice:
  "(session_empty m \<longrightarrow>
      close E (m, tr) = (Inr (), (m, tr)) \<and>
      browser_close E (m, tr) = (Inr ''Browser closed'', (m, tr))) \<and>
   (browser_close E (m, tr) = (Inr r, s1) \<longrightarrow>
      r = ''Browser closed'' \<and> session_empty (fst s1) \<and>
      browser_close E s1 = (Inr ''Browser closed'', s1)) \<and>
   ((\<forall>t op. teardown_op op \<longrightarrow> raises E t op = None) \<longrightarrow>
      (\<exists>s1. browser_close E (m, tr) = (Inr ''Browser closed'', s1)))"
proof (intro conjI impI)
  assume "session_empty m"
  then show "close E (m, tr) = (Inr (), (m, tr))" by (rule close_empty)
  then show "browser_close E (m, tr) = (Inr ''Browser closed'', (m, tr))"
    by (simp add: browser_close_result)
next
  assume a: "browser_close E (m, tr) = (Inr r, s1)"
  obtain m1 t1 where s1: "s1 = (m1, t1)" by (cases s1)
  from a have c: "close E (m, tr) = (Inr (), (m1, t1)) \<and> r = ''Browser closed''"
    unfolding s1 by (auto simp: browser_close_result split: prod.splits sum.splits)
  then show "r = ''Browser closed''" by simp
  from c have e: "session_empty m1" by (auto dest: close_Inr)
  then show "session_empty (fst s1)" by (simp add: s1)
  from e have "close E (m1, t1) = (Inr (), (m1, t1))" by (rule close_empty)
  then show "browser_close E s1 = (Inr ''Browser closed'', s1)"
    by (simp add: browser_close_result s1)
next
  assume "\<forall>t op. teardown_op op \<longrightarrow> raises E t op = None"
  then obtain s' where "close E (m, tr) = (Inr (), s')"
    using close_total by blast
  then show "\<exists>s1. browser_close E (m, tr) = (Inr ''Browser closed'', s1)"
    by (simp add: browser_close_result)
qed

theorem close_twice_witness:
  "session_empty pw_manager \<and>
   browser_close quiet_env (pw_manager, []) = (Inr ''Browser closed'', (pw_manager, [])) \<and>
   browser_close quiet_env (ready_manager, ready_trace) =
     (Inr ''Browser closed'',
      (pw_manager, ready_trace @ [PageClose 3, ContextClose 2, BrowserClose 1, Stop 0])) \<and>
   browser_close quiet_env
     (pw_manager, ready_trace @ [PageClose 3, ContextClose 2, BrowserClose 1, Stop 0]) =
     (Inr ''Browser closed'',
      (pw_manager, ready_trace @ [PageClose 3, ContextClose 2, BrowserClose 1, Stop 0])) \<and>
   (\<exists>s1. browser_close quiet_env (ready_manager, ready_trace) = (Inr ''Browser closed'', s1))"
proof -
  have e: "session_empty pw_manager"
    by (simp add: session_empty_def pw_manager_def)
  have q: "\<forall>t op. teardown_op op \<longrightarrow> raises quiet_env t op = None"
    by (simp add: quiet_env_def)
  have a: "browser_close quiet_env (pw_manager, []) = (Inr ''Browser closed'', (pw_manager, []))"
    by (rule close_twice [where m = pw_manager and tr = "[]" and E = quiet_env,
          THEN conjunct1, THEN mp, OF e, THEN conjunct2])
  have b: "browser_close quiet_env
       (pw_manager, ready_trace @ [PageClose 3, ContextClose 2, BrowserClose 1, Stop 0]) =
     (Inr ''Browser closed'',
      (pw_manager, ready_trace @ [PageClose 3, ContextClose 2, BrowserClose 1, Stop 0]))"
    by (rule close_twice [THEN conjunct2, THEN conjunct1, THEN mp, OF browser_close_ready,
          THEN conjunct2, THEN conjunct2])
  have c: "\<exists>s1. browser_close quiet_env (ready_manager, ready_trace)
      = (Inr ''Browser closed'', s1)"
    by (rule close_twice [THEN conjunct2, THEN conjunct2, THEN mp, OF q])
  from e a browser_close_ready b c show ?thesis by (intro conjI)
qed

text \<open>
  With a context whose \<^verbatim>\<open>close\<close> raises, two calls of the tool in a row both end with the
  exception, and the session keeps its context, browser and driver.
\<close>

theorem close_twice_counterexample:
  "browser_close context_close_fails_env (ready_manager, ready_trace) =
     (Inl (EngineError ''Connection closed''),
      (ready_manager\<lparr>page := None\<rparr>, ready_trace @ [PageClose 3, ContextClose 2])) \<and>
   browser_close context_close_fails_env
     (ready_manager\<lparr>page := None\<rparr>, ready_trace @ [PageClose 3, ContextClose 2]) =
     (Inl (EngineError ''Connection closed''),
      (ready_manager\<lparr>page := None\<rparr>,
       ready_trace @ [PageClose 3, ContextClose 2, ContextClose 2])) \<and>
   \<not> session_empty (ready_manager\<lparr>page := None\<rparr>)"
  by (simp add: browser_close_result close_def io_bind_def close_cases
      context_close_fails_env_def quiet_env_def ready_manager_def pw_manager_def
      session_empty_def)

lemma clear_absent:
  "page m = None \<Longrightarrow> m\<lparr>page := None\<rparr> = m"
  "browser_context m = None \<Longrightarrow> m\<lparr>browser_context := None\<rparr> = m"
  "browser m = None \<Longrightarrow> m\<lparr>browser := None\<rparr> = m"
  "playwright m = None \<Longrightarrow> m\<lparr>playwright := None\<rparr> = m"
  by (cases m; simp)+

lemma close_first_page:
  assumes "page m = Some p"
  shows "raises E tr (PageClose p) = Some e \<Longrightarrow>
           close E (m, tr) = (Inl e, (m, tr @ [PageClose p]))"
    and "raises E tr (PageClose p) = None \<Longrightarrow>
           close E (m, tr) = close E (m\<lparr>page := None\<rparr>, tr @ [PageClose p])"
  using assms by (simp_all add: close_def io_bind_def close_cases)

lemma close_first_context:
  assumes "page m = None" and "browser_context m = Some c"
  shows "raises E tr (ContextClose c) = Some e \<Longrightarrow>
           close E (m, tr) = (Inl e, (m, tr @ [ContextClose c]))"
    and "raises E tr (ContextClose c) = None \<Longrightarrow>
           close E (m, tr) = close E (m\<lparr>browser_context := None\<rparr>, tr @ [ContextClose c])"
  using assms by (simp_all add: close_def io_bind_def close_cases)

lemma close_first_browser:
  assumes "page m = None" and "browser_context m = None" and "browser m = Some b"
  shows "raises E tr (BrowserClose b) = Some e \<Longrightarrow>
           close E (m, tr) = (Inl e, (m, tr @ [BrowserClose b]))"
    and "raises E tr (BrowserClose b) = None \<Longrightarrow>
           close E (m, tr) = close E (m\<lparr>browser := None\<rparr>, tr @ [BrowserClose b])"
  using assms by (simp_all add: close_def io_bind_def close_cases)

lemma close_first_driver:
  assumes "page m = None" and "browser_context m = None" and "browser m = None"
    and "playwright m = Some pw"
  shows "raises E tr (Stop pw) = Some e \<Longrightarrow>
           close E (m, tr) = (Inl e, (m, tr @ [Stop pw]))"
    and "raises E tr (Stop pw) = None \<Longrightarrow>
           close E (m, tr) = (Inr (), (m\<lparr>playwright := None\<rparr>, tr @ [Stop pw]))"
  using assms by (simp_all add: close_def io_bind_def close_cases)

lemma close_Inl_state:
  assumes "close E (m, tr) = (Inl e, (m', tr'))"
  shows "(\<exists>p. page m = Some p \<and> raises E tr (PageClose p) = Some e \<and>
            m' = m \<and> tr' = tr @ [PageClose p]) \<or>
         (\<exists>c t. browser_context m = Some c \<and> raises E t (ContextClose c) = Some e \<and>
            m' = m\<lparr>page := None\<rparr> \<and> tr' = t @ [ContextClose c]) \<or>
         (\<exists>b t. browser m = Some b \<and> raises E t (BrowserClose b) = Some e \<and>
            m' = m\<lparr>page := None, browser_context := None\<rparr> \<and> tr' = t @ [BrowserClose b]) \<or>
         (\<exists>pw t. playwright m = Some pw \<and> raises E t (Stop pw) = Some e \<and>
            m' = m\<lparr>page := None, browser_context := None, browser := None\<rparr> \<and>
            tr' = t @ [Stop pw])"
proof (cases "page m")
  case None
  note pn = this
  show ?thesis
  proof (cases "browser_context m")
    case None
    note cn = this
    show ?thesis
    proof (cases "browser m")
      case None
      with assms pn cn show ?thesis
        by (auto simp: close_def io_bind_def close_cases clear_absent split: option.splits)
    next
      case (Some b)
      with assms pn cn show ?thesis
        by (auto simp: close_def io_bind_def close_cases clear_absent split: option.splits)
    qed
  next
    case (Some c)
    with assms pn show ?thesis
      by (auto simp: close_def io_bind_def close_cases clear_absent split: option.splits)
  qed
next
  case (Some p)
  with assms show ?thesis
    by (auto simp: close_def io_bind_def close_cases clear_absent split: option.splits)
qed

lemma context_close_fails_facts:
  "raises context_close_fails_env t (PageClose p) = None"
  "raises context_close_fails_env t (ContextClose c) = Some (EngineError ''Connection closed'')"
  "raises page_close_fails_env t (PageClose p) = Some (EngineError ''Connection closed'')"
  by (simp_all add: context_close_fails_env_def page_close_fails_env_def quiet_env_def)

lemma ready_manager_fields:
  "page ready_manager = Some 3" "browser_context ready_manager = Some 2"
  "browser ready_manager = Some 1" "playwright ready_manager = Some 0"
  by (simp_all add: ready_manager_def)

text \<open>
  C6 (as amended). \<^verbatim>\<open>close\<close> takes the resources in the order page, context, browser,
  driver, and the first that is present decides how it goes on. When the close (or stop)
  of that resource raises, \<^verbatim>\<open>close\<close> ends with that very exception, having made no
  further call: the reference of the resource and every later reference are kept. When it
  does not raise, the reference is cleared and \<^verbatim>\<open>close\<close> goes on as from the session
  without it. So whenever \<^verbatim>\<open>close\<close> ends with an exception, it is the exception of the
  last call made, the references before the failed resource are cleared and all others
  are as they were; whenever it returns, the session is empty; and it returns when no
  close or stop operation raises.
\<close>

theorem close_failure_propagates:
  "(close E (m, tr) = (Inr u, (m', tr')) \<longrightarrow> session_empty m') \<and>
   (session_empty m \<longrightarrow> close E (m, tr) = (Inr (), (m, tr))) \<and>
   (page m = Some p \<and> raises E tr (PageClose p) = Some e \<longrightarrow>
      close E (m, tr) = (Inl e, (m, tr @ [PageClose p]))) \<and>
   (page m = Some p \<and> raises E tr (PageClose p) = None \<longrightarrow>
      close E (m, tr) = close E (m\<lparr>page := None\<rparr>, tr @ [PageClose p])) \<and>
   (page m = None \<and> browser_context m = Some c \<and>
    raises E tr (ContextClose c) = Some e \<longrightarrow>
      close E (m, tr) = (Inl e, (m, tr @ [ContextClose c]))) \<and>
   (page m = None \<and> browser_context m = Some c \<and>
    raises E tr (ContextClose c) = None \<longrightarrow>
      close E (m, tr) = close E (m\<lparr>browser_context := None\<rparr>, tr @ [ContextClose c])) \<and>
   (page m = None \<and> browser_context m = None \<and> browser m = Some b \<and>
    raises E tr (BrowserClose b) = Some e \<longrightarrow>
      close E (m, tr) = (Inl e, (m, tr @ [BrowserClose b]))) \<and>
   (page m = None \<and> browser_context m = None \<and> browser m = Some b \<and>
    raises E tr (BrowserClose b) = None \<longrightarrow>
      close E (m, tr) = close E (m\<lparr>browser := None\<rparr>, tr @ [BrowserClose b])) \<and>
   (page m = None \<and> browser_context m = None \<and> browser m = None \<and>
    playwright m = Some pw \<and> raises E tr (Stop pw) = Some e \<longrightarrow>
      close E (m, tr) = (Inl e, (m, tr @ [Stop pw]))) \<and>
   (page m = None \<and> browser_context m = None \<and> browser m = None \<and>
    playwright m = Some pw \<and> raises E tr (Stop pw) = None \<longrightarrow>
      close E (m, tr) = (Inr (), (m\<lparr>playwright := None\<rparr>, tr @ [Stop pw]))) \<and>
   (close E (m, tr) = (Inl x, (m', tr')) \<longrightarrow>
      (\<exists>p. page m = Some p \<and> raises E tr (PageClose p) = Some x \<and>
         m' = m \<and> tr' = tr @ [PageClose p]) \<or>
      (\<exists>c t. browser_context m = Some c \<and> raises E t (ContextClose c) = Some x \<and>
         m' = m\<lparr>page := None\<rparr> \<and> tr' = t @ [ContextClose c]) \<or>
      (\<exists>b t. browser m = Some b \<and> raises E t (BrowserClose b) = Some x \<and>
         m' = m\<lparr>page := None, browser_context := None\<rparr> \<and> tr' = t @ [BrowserClose b]) \<or>
      (\<exists>pw t. playwright m = Some pw \<and> raises E t (Stop pw) = Some x \<and>
         m' = m\<lparr>page := None, browser_context := None, browser := None\<rparr> \<and>
         tr' = t @ [Stop pw])) \<and>
   ((\<forall>t op. teardown_op op \<longrightarrow> raises E t op = None) \<longrightarrow>
      (\<exists>m' tr'. close E (m, tr) = (Inr (), (m', tr')) \<and> session_empty m'))"
proof (intro conjI impI)
  assume "close E (m, tr) = (Inr u, (m', tr'))"
  then show "session_empty m'" by (rule close_Inr)
next
  assume "session_empty m"
  then show "close E (m, tr) = (Inr (), (m, tr))" by (rule close_empty)
next
  assume "page m = Some p \<and> raises E tr (PageClose p) = Some e"
  then show "close E (m, tr) = (Inl e, (m, tr @ [PageClose p]))"
    by (simp add: close_first_page)
next
  assume "page m = Some p \<and> raises E tr (PageClose p) = None"
  then show "close E (m, tr) = close E (m\<lparr>page := None\<rparr>, tr @ [PageClose p])"
    by (simp add: close_first_page)
next
  assume "page m = None \<and> browser_context m = Some c \<and>
    raises E tr (ContextClose c) = Some e"
  then show "close E (m, tr) = (Inl e, (m, tr @ [ContextClose c]))"
    by (simp add: close_first_context)
next
  assume "page m = None \<and> browser_context m = Some c \<and>
    raises E tr (ContextClose c) = None"
  then show "close E (m, tr) = close E (m\<lparr>browser_context := None\<rparr>, tr @ [ContextClose c])"
    by (simp add: close_first_context)
next
  assume "page m = None \<and> browser_context m = None \<and> browser m = Some b \<and>
    raises E tr (BrowserClose b) = Some e"
  then show "close E (m, tr) = (Inl e, (m, tr @ [BrowserClose b]))"
    by (simp add: close_first_browser)
next
  assume "page m = None \<and> browser_context m = None \<and> browser m = Some b \<and>
    raises E tr (BrowserClose b) = None"
  then show "close E (m, tr) = close E (m\<lparr>browser := None\<rparr>, tr @ [BrowserClose b])"
    by (simp add: close_first_browser)
next
  assume "page m = None \<and> browser_context m = None \<and> browser m = None \<and>
    playwright m = Some pw \<and> raises E tr (Stop pw) = Some e"
  then show "close E (m, tr) = (Inl e, (m, tr @ [Stop pw]))"
    by (simp add: close_first_driver)
next
  assume "page m = None \<and> browser_context m = None \<and> browser m = None \<and>
    playwright m = Some pw \<and> raises E tr (Stop pw) = None"
  then show "close E (m, tr) = (Inr (), (m\<lparr>playwright := None\<rparr>, tr @ [Stop pw]))"
    by (simp add: close_first_driver)
next
  assume "close E (m, tr) = (Inl x, (m', tr'))"
  then show "(\<exists>p. page m = Some p \<and> raises E tr (PageClose p) = Some x \<and>
         m' = m \<and> tr' = tr @ [PageClose p]) \<or>
      (\<exists>c t. browser_context m = Some c \<and> raises E t (ContextClose c) = Some x \<and>
         m' = m\<lparr>page := None\<rparr> \<and> tr' = t @ [ContextClose c]) \<or>
      (\<exists>b t. browser m = Some b \<and> raises E t (BrowserClose b) = Some x \<and>
         m' = m\<lparr>page := None, browser_context := None\<rparr> \<and> tr' = t @ [BrowserClose b]) \<or>
      (\<exists>pw t. playwright m = Some pw \<and> raises E t (Stop pw) = Some x \<and>
         m' = m\<lparr>page := None, browser_context := None, browser := None\<rparr> \<and>
         tr' = t @ [Stop pw])"
    by (rule close_Inl_state)
next
  assume "\<forall>t op. teardown_op op \<longrightarrow> raises E t op = None"
  then obtain s' where c: "close E (m, tr) = (Inr (), s')"
    using close_total by blast
  obtain m1 t1 where s': "s' = (m1, t1)" by (cases s')
  from c have "session_empty m1" unfolding s' by (rule close_Inr)
  with c s' show "\<exists>m' tr'. close E (m, tr) = (Inr (), (m', tr')) \<and> session_empty m'"
    by blast
qed

theorem close_failure_propagates_witness:
  "close quiet_env (ready_manager, ready_trace) =
     (Inr (), (pw_manager, ready_trace @ [PageClose 3, ContextClose 2, BrowserClose 1, Stop 0])) \<and>
   session_empty pw_manager \<and>
   close quiet_env (pw_manager, []) = (Inr (), (pw_manager, [])) \<and>
   close page_close_fails_env (ready_manager, ready_trace) =
     (Inl (EngineError ''Connection closed''), (ready_manager, ready_trace @ [PageClose 3])) \<and>
   close context_close_fails_env (ready_manager, ready_trace) =
     (Inl (EngineError ''Connection closed''),
      (ready_manager\<lparr>page := None\<rparr>, ready_trace @ [PageClose 3, ContextClose 2])) \<and>
   browser_context (ready_manager\<lparr>page := None\<rparr>) = Some 2 \<and>
   browser (ready_manager\<lparr>page := None\<rparr>) = Some 1 \<and>
   playwright (ready_manager\<lparr>page := None\<rparr>) = Some 0 \<and>
   (\<exists>m' tr'. close quiet_env (ready_manager, ready_trace) = (Inr (), (m', tr')) \<and>
      session_empty m')"
proof -
  have q: "\<forall>t op. teardown_op op \<longrightarrow> raises quiet_env t op = None"
    by (simp add: quiet_env_def)
  have e: "session_empty pw_manager"
    by (rule close_failure_propagates [THEN conjunct1, THEN mp, OF close_ready])
  have a: "close quiet_env (pw_manager, []) = (Inr (), (pw_manager, []))"
    by (rule close_failure_propagates [THEN conjunct2, THEN conjunct1, THEN mp, OF e])
  have b: "close page_close_fails_env (ready_manager, ready_trace) =
     (Inl (EngineError ''Connection closed''), (ready_manager, ready_trace @ [PageClose 3]))"
    by (rule close_failure_propagates [THEN conjunct2, THEN conjunct2, THEN conjunct1, THEN mp])
       (simp add: ready_manager_fields context_close_fails_facts)
  have step: "close context_close_fails_env (ready_manager, ready_trace) =
      close context_close_fails_env (ready_manager\<lparr>page := None\<rparr>, ready_trace @ [PageClose 3])"
    by (rule close_failure_propagates [THEN conjunct2, THEN conjunct2, THEN conjunct2, THEN conjunct1,
          THEN mp])
       (simp add: ready_manager_fields context_close_fails_facts)
  have fail: "close context_close_fails_env
        (ready_manager\<lparr>page := None\<rparr>, ready_trace @ [PageClose 3]) =
     (Inl (EngineError ''Connection closed''),
      (ready_manager\<lparr>page := None\<rparr>, (ready_trace @ [PageClose 3]) @ [ContextClose 2]))"
    by (rule close_failure_propagates [THEN conjunct2, THEN conjunct2, THEN conjunct2, THEN conjunct2,
          THEN conjunct1, THEN mp])
       (simp add: ready_manager_fields context_close_fails_facts)
  have c: "close context_close_fails_env (ready_manager, ready_trace) =
     (Inl (EngineError ''Connection closed''),
      (ready_manager\<lparr>page := None\<rparr>, ready_trace @ [PageClose 3, ContextClose 2]))"
    using step fail by simp
  have k: "browser_context (ready_manager\<lparr>page := None\<rparr>) = Some 2"
    "browser (ready_manager\<lparr>page := None\<rparr>) = Some 1"
    "playwright (ready_manager\<lparr>page := None\<rparr>) = Some 0"
    by (simp_all add: ready_manager_fields)
  have d: "\<exists>m' tr'. close quiet_env (ready_manager, ready_trace) = (Inr (), (m', tr')) \<and>
      session_empty m'"
    by (rule close_failure_propagates [THEN conjunct2, THEN conjunct2, THEN conjunct2, THEN conjunct2,
          THEN conjunct2, THEN conjunct2, THEN conjunct2, THEN conjunct2, THEN conjunct2,
          THEN conjunct2, THEN conjunct2, THEN mp, OF q])
  from close_ready e a b c k d show ?thesis by (intro conjI)
qed

text \<open>
  With a page whose \<^verbatim>\<open>close\<close> raises, \<^verbatim>\<open>close\<close> ends with that exception after its first
  call: the context, the browser and the driver are never closed and no reference is
  cleared.
\<close>

theorem close_failure_counterexample:
  "close page_close_fails_env (ready_manager, ready_trace) =
     (Inl (EngineError ''Connection closed''), (ready_manager, ready_trace @ [PageClose 3])) \<and>
   page ready_manager = Some 3 \<and> browser_context ready_manager = Some 2 \<and>
   browser ready_manager = Some 1 \<and> playwright ready_manager = Some 0"
  by (simp add: close_def io_bind_def close_cases page_close_fails_env_def quiet_env_def
      ready_manager_def pw_manager_def)

section \<open>Properties of the PDF tool\<close>

lemma pdf_reconfigure_noop:
  "browser_type m = Chromium \<Longrightarrow> headless m \<Longrightarrow> pdf_reconfigure E (m, tr) = (Inr (), (m, tr))"
  by (simp add: pdf_reconfigure_def io_bind_def io_get_def io_return_def)

lemma quiet_env_timestamp:
  "strftime (now quiet_env tr) = ''20240102_030405''"
  by (simp add: quiet_env_def strftime_def four_digits_def two_digits_def digit_chr_def)

lemma quiet_env_dirs:
  "tempdir quiet_env = ''/tmp''" "work_dir quiet_env = ''/srv/app''"
  by (simp_all add: quiet_env_def)

lemma ensure_browser_after_close:
  "ensure_browser quiet_env
     (pw_manager, ready_trace @ [PageClose 3, ContextClose 2, BrowserClose 1, Stop 0])
   = (Inr 11, (pw_manager\<lparr>playwright := Some 8, browser := Some 9,
                 browser_context := Some 10, page := Some 11\<rparr>,
              ready_trace @ [PageClose 3, ContextClose 2, BrowserClose 1, Stop 0,
                Start, Launch 8 Chromium False, NewContext 9 (Some (1200, 900)), NewPage 10]))"
  by (simp add: ensure_defs io_defs quiet_env_def pw_manager_def ready_trace_def)

lemma take_one_Cons:
  "take 1 (x # xs) = [x]"
  by simp

lemma io_bind_step:
  "f s = (Inr x, s') \<Longrightarrow> io_bind f g s = g x s'"
  by (simp add: io_bind_def)

lemma pdf_reconfigure_ready:
  "pdf_reconfigure quiet_env (ready_manager, ready_trace) =
     (Inr (), (pw_manager, ready_trace @ [PageClose 3, ContextClose 2, BrowserClose 1, Stop 0]))"
proof -
  have h: "\<not> headless ready_manager"
    by (simp add: ready_manager_def pw_manager_def)
  have u: "pw_manager\<lparr>browser_type := Chromium, headless := False\<rparr> = pw_manager"
    by (simp add: pw_manager_def)
  show ?thesis
    unfolding pdf_reconfigure_def
    by (simp add: io_bind_def io_get_def io_modify_def h close_ready u del: One_nat_def)
qed

text \<open>
  C3. On a session whose configuration is already the one the PDF tool asks for
  (Chromium and headless), the reconfiguration step of \<^verbatim>\<open>browser_save_as_pdf\<close> makes no
  call and changes nothing, so reconfiguring and acquiring is the same as
  \<^verbatim>\<open>ensure_browser\<close> alone. With driver, browser, context and page present, the page
  returned is the existing one, the manager is unchanged, and the only call the whole tool
  makes is the one that writes the PDF.
\<close>

theorem pdf_reconfigure_satisfied:
  assumes "browser_type m = Chromium" and "headless m"
  shows "pdf_reconfigure E (m, tr) = (Inr (), (m, tr)) \<and>
         io_bind (pdf_reconfigure E) (\<lambda>_. ensure_browser E) (m, tr) = ensure_browser E (m, tr) \<and>
         (playwright m = Some a \<and> browser m = Some b \<and> browser_context m = Some c \<and>
          page m = Some p \<longrightarrow>
            io_bind (pdf_reconfigure E) (\<lambda>_. ensure_browser E) (m, tr) = (Inr p, (m, tr)) \<and>
            snd (browser_save_as_pdf E landscape format (m, tr)) =
              (m, tr @ [Pdf p (path_join (tempdir E) (''page_'' @ strftime (now E tr) @ ''.pdf''))
                          (truthy landscape) (if truthy format then Some format else None)]))"
proof -
  have noop: "pdf_reconfigure E (m, tr) = (Inr (), (m, tr))"
    using assms by (rule pdf_reconfigure_noop)
  have same: "io_bind (pdf_reconfigure E) (\<lambda>_. ensure_browser E) (m, tr) = ensure_browser E (m, tr)"
    by (simp add: io_bind_def noop)
  have ready: "io_bind (pdf_reconfigure E) (\<lambda>_. ensure_browser E) (m, tr) = (Inr p, (m, tr))"
    if "playwright m = Some a" "browser m = Some b" "browser_context m = Some c" "page m = Some p"
    using that by (simp add: same ensure_browser_ready)
  have pdf: "snd (browser_save_as_pdf E landscape format (m, tr)) =
      (m, tr @ [Pdf p (path_join (tempdir E) (''page_'' @ strftime (now E tr) @ ''.pdf''))
                  (truthy landscape) (if truthy format then Some format else None)])"
    if "playwright m = Some a" "browser m = Some b" "browser_context m = Some c" "page m = Some p"
  proof -
    have eb: "ensure_browser E (m, tr) = (Inr p, (m, tr))"
      using that by (rule ensure_browser_ready)
    show ?thesis
      by (simp add: browser_save_as_pdf_def io_bind_def noop eb timestamp_def io_try_def
          engine_call_def engine_ask_def io_return_def Let_def split: option.splits)
  qed
  from noop same ready pdf show ?thesis by blast
qed

theorem pdf_reconfigure_satisfied_witness:
  "browser_type (ready_manager\<lparr>headless := True\<rparr>) = Chromium \<and>
   headless (ready_manager\<lparr>headless := True\<rparr>) \<and>
   page (ready_manager\<lparr>headless := True\<rparr>) = Some 3 \<and>
   io_bind (pdf_reconfigure quiet_env) (\<lambda>_. ensure_browser quiet_env)
     (ready_manager\<lparr>headless := True\<rparr>, ready_trace)
     = (Inr 3, (ready_manager\<lparr>headless := True\<rparr>, ready_trace)) \<and>
   snd (browser_save_as_pdf quiet_env (PBool True) PNone
          (ready_manager\<lparr>headless := True\<rparr>, ready_trace))
     = (ready_manager\<lparr>headless := True\<rparr>,
        ready_trace @ [Pdf 3 ''/tmp/page_20240102_030405.pdf'' True None])"
proof -
  have t: "browser_type (ready_manager\<lparr>headless := True\<rparr>) = Chromium"
    by (simp add: ready_manager_def pw_manager_def)
  have h: "headless (ready_manager\<lparr>headless := True\<rparr>)"
    by simp
  have r: "playwright (ready_manager\<lparr>headless := True\<rparr>) = Some 0 \<and>
           browser (ready_manager\<lparr>headless := True\<rparr>) = Some 1 \<and>
           browser_context (ready_manager\<lparr>headless := True\<rparr>) = Some 2 \<and>
           page (ready_manager\<lparr>headless := True\<rparr>) = Some 3"
    by (simp add: ready_manager_def)
  have n: "path_join (tempdir quiet_env) (''page_'' @ strftime (now quiet_env ready_trace) @ ''.pdf'')
      = ''/tmp/page_20240102_030405.pdf''"
    by (simp add: quiet_env_timestamp quiet_env_dirs path_join_def)
  from pdf_reconfigure_satisfied [OF t h, where E = quiet_env and tr = ready_trace
      and landscape = "PBool True" and format = PNone,
      THEN conjunct2, THEN conjunct2, THEN mp, OF r, unfolded n]
  have "io_bind (pdf_reconfigure quiet_env) (\<lambda>_. ensure_browser quiet_env)
     (ready_manager\<lparr>headless := True\<rparr>, ready_trace)
     = (Inr 3, (ready_manager\<lparr>headless := True\<rparr>, ready_trace)) \<and>
   snd (browser_save_as_pdf quiet_env (PBool True) PNone
          (ready_manager\<lparr>headless := True\<rparr>, ready_trace))
     = (ready_manager\<lparr>headless := True\<rparr>,
        ready_trace @ [Pdf 3 ''/tmp/page_20240102_030405.pdf'' True None])"
    by simp
  with t h r show ?thesis by simp
qed

text \<open>
  C1. On the session as the module builds it (Chromium, headed),
  \<^verbatim>\<open>browser_save_as_pdf(landscape=True)\<close> closes the session and builds it again, and it
  does return the path of a time-stamped \<^verbatim>\<open>.pdf\<close> file in the temporary directory. The
  session it builds is headed: the browser is launched with \<^verbatim>\<open>headless=False\<close> and the
  manager's \<^verbatim>\<open>headless\<close> field is \<^verbatim>\<open>False\<close> afterwards.
\<close>

theorem save_as_pdf_rebuilds_headed:
  "browser_save_as_pdf quiet_env (PBool True) PNone (ready_manager, ready_trace) =
     (Inr ''PDF saved to /tmp/page_20240102_030405.pdf'',
      (pw_manager\<lparr>playwright := Some 8, browser := Some 9,
          browser_context := Some 10, page := Some 11\<rparr>,
       ready_trace @ [PageClose 3, ContextClose 2, BrowserClose 1, Stop 0,
         Start, Launch 8 Chromium False, NewContext 9 (Some (1200, 900)), NewPage 10,
         Pdf 11 ''/tmp/page_20240102_030405.pdf'' True None])) \<and>
   headless (pw_manager\<lparr>playwright := Some 8, browser := Some 9,
          browser_context := Some 10, page := Some 11\<rparr>) = False"
proof -
  have r: "raises quiet_env tr op = None" for tr op
    by (simp add: quiet_env_def)
  have "browser_save_as_pdf quiet_env (PBool True) PNone (ready_manager, ready_trace) =
     (Inr ''PDF saved to /tmp/page_20240102_030405.pdf'',
      (pw_manager\<lparr>playwright := Some 8, browser := Some 9,
          browser_context := Some 10, page := Some 11\<rparr>,
       ready_trace @ [PageClose 3, ContextClose 2, BrowserClose 1, Stop 0,
         Start, Launch 8 Chromium False, NewContext 9 (Some (1200, 900)), NewPage 10,
         Pdf 11 ''/tmp/page_20240102_030405.pdf'' True None]))"
    unfolding browser_save_as_pdf_def
    apply (simp only: io_bind_step [where f = "pdf_reconfigure quiet_env", OF pdf_reconfigure_ready])
    apply (simp only: io_bind_step [where f = "ensure_browser quiet_env", OF ensure_browser_after_close])
    apply (simp add: timestamp_def io_bind_def io_try_def engine_call_def engine_ask_def
        io_return_def r quiet_env_timestamp quiet_env_dirs path_join_def Let_def take_one_Cons
        del: One_nat_def)
    done
  moreover have "headless (pw_manager\<lparr>playwright := Some 8, browser := Some 9,
          browser_context := Some 10, page := Some 11\<rparr>) = False"
    by (simp add: pw_manager_def)
  ultimately show ?thesis by (rule conjI)
qed

section \<open>Properties of the tools\<close>

subsection \<open>Output paths and screenshots\<close>

lemma digit_chr_not_slash:
  "digit_chr n \<noteq> CHR ''/''" "CHR ''/'' \<noteq> digit_chr n"
proof -
  have "n mod 10 < length ''0123456789''" by simp
  then have "''0123456789'' ! (n mod 10) \<in> set ''0123456789''" by (rule nth_mem)
  then have "digit_chr n \<in> set ''0123456789''" by (simp only: digit_chr_def)
  then show "digit_chr n \<noteq> CHR ''/''" by auto
  then show "CHR ''/'' \<noteq> digit_chr n" by (rule not_sym)
qed

lemma strftime_no_slash:
  "CHR ''/'' \<notin> set (strftime d)"
  by (simp add: strftime_def two_digits_def four_digits_def digit_chr_not_slash)

lemma basename_join:
  assumes "name \<noteq> []" and "CHR ''/'' \<notin> set name"
  shows "basename (path_join d name) = name"
proof -
  from assms obtain x xs where n: "name = x # xs" and x: "x \<noteq> CHR ''/''"
    by (cases name) auto
  have all: "\<forall>c\<in>set (rev name). c \<noteq> CHR ''/''" using assms by auto
  have tw: "takeWhile (\<lambda>c. c \<noteq> CHR ''/'') (rev name @ ys) =
      rev name @ takeWhile (\<lambda>c. c \<noteq> CHR ''/'') ys" for ys
    by (rule takeWhile_append2) (use all in auto)
  have nt: "take 1 name \<noteq> ''/''" using n x by simp
  show ?thesis
  proof (cases "d = [] \<or> last d = CHR ''/''")
    case True
    then have pj: "path_join d name = d @ name" using nt by (simp add: path_join_def)
    have "takeWhile (\<lambda>c. c \<noteq> CHR ''/'') (rev d) = []"
    proof (cases d rule: rev_cases)
      case Nil
      then show ?thesis by simp
    next
      case (snoc ys y)
      with True show ?thesis by simp
    qed
    then show ?thesis by (simp add: basename_def pj tw)
  next
    case False
    then have pj: "path_join d name = d @ ''/'' @ name" using nt by (simp add: path_join_def)
    show ?thesis by (simp add: basename_def pj tw)
  qed
qed

lemma lies_in_join:
  "name \<noteq> [] \<Longrightarrow> CHR ''/'' \<notin> set name \<Longrightarrow> lies_in d (path_join d name)"
  by (simp add: lies_in_def basename_join)

lemma lies_in_stamped:
  "CHR ''/'' \<notin> set stem \<Longrightarrow> CHR ''/'' \<notin> set ext \<Longrightarrow> stem \<noteq> [] \<Longrightarrow>
    lies_in d (path_join d (stem @ strftime t @ ext))"
  by (rule lies_in_join) (simp_all add: strftime_no_slash)

lemma io_try_step:
  "f s = (Inr x, s') \<Longrightarrow> io_try f h s = (Inr x, s')"
  "f s = (Inl e, s') \<Longrightarrow> io_try f h s = h e s'"
  by (simp_all add: io_try_def)

lemma engine_ask_cases:
  "engine_ask E op answer (m, tr) =
     (case raises E tr op of
        Some e \<Rightarrow> (Inl e, (m, tr @ [op]))
      | None \<Rightarrow> (Inr (answer tr), (m, tr @ [op])))"
  by (simp add: engine_ask_def)

lemma screenshot_page:
  assumes "ensure_browser E s = (Inr pg, (m, tr))" and "\<not> truthy sel"
    and "raises E tr (PageScreenshot pg
           (path_join (tempdir E) (''screenshot_'' @ strftime (now E tr) @ ''.png''))) = None"
  shows "browser_screenshot E sel fp s =
     (Inr (''Screenshot saved to ''
            @ path_join (tempdir E) (''screenshot_'' @ strftime (now E tr) @ ''.png'')),
      (m, tr @ [PageScreenshot pg
                  (path_join (tempdir E) (''screenshot_'' @ strftime (now E tr) @ ''.png''))]))"
  using assms
  by (simp add: browser_screenshot_def io_bind_def timestamp_def Let_def io_try_def
      engine_call_def engine_ask_cases io_return_def)

lemma screenshot_element:
  assumes "ensure_browser E s = (Inr pg, (m, tr))" and "truthy sel"
    and "raises E tr (QuerySelector pg sel) = None" and "finds E tr (QuerySelector pg sel)"
    and "raises E (tr @ [QuerySelector pg sel]) (ElementScreenshot (length tr)
           (path_join (tempdir E) (''screenshot_'' @ strftime (now E tr) @ ''.png''))) = None"
  shows "browser_screenshot E sel fp s =
     (Inr (''Screenshot saved to ''
            @ path_join (tempdir E) (''screenshot_'' @ strftime (now E tr) @ ''.png'')),
      (m, tr @ [QuerySelector pg sel, ElementScreenshot (length tr)
                  (path_join (tempdir E) (''screenshot_'' @ strftime (now E tr) @ ''.png''))]))"
  using assms
  by (simp add: browser_screenshot_def io_bind_def timestamp_def Let_def io_try_def
      engine_call_def engine_find_def engine_ask_cases io_return_def)

lemma screenshot_not_found:
  assumes "ensure_browser E s = (Inr pg, (m, tr))" and "truthy sel"
    and "raises E tr (QuerySelector pg sel) = None" and "\<not> finds E tr (QuerySelector pg sel)"
  shows "browser_screenshot E sel fp s =
     (Inr (''Error: Could not find element with selector '' @ sq @ py_str sel @ sq),
      (m, tr @ [QuerySelector pg sel]))"
  using assms
  by (simp add: browser_screenshot_def io_bind_def timestamp_def Let_def io_try_def
      engine_call_def engine_find_def engine_ask_cases io_return_def)

lemma ensure_browser_ready_session:
  "ensure_browser E (ready_manager, ready_trace) = (Inr 3, (ready_manager, ready_trace))"
  by (rule ensure_browser_ready [where a = 0 and b = 1 and c = 2])
     (simp_all add: ready_manager_def)

lemma quiet_env_raises:
  "raises quiet_env tr op = None"
  by (simp add: quiet_env_def)

lemma quiet_env_screenshot_path:
  "path_join (tempdir quiet_env) (''screenshot_'' @ strftime (now quiet_env tr) @ ''.png'')
     = ''/tmp/screenshot_20240102_030405.png''"
  by (simp add: quiet_env_timestamp quiet_env_dirs path_join_def)

text \<open>
  C10. \<^verbatim>\<open>browser_screenshot\<close> does the same whatever \<^verbatim>\<open>file_path\<close> is. Once the page
  is acquired, the path it uses is the file \<^verbatim>\<open>screenshot_<timestamp>.png\<close> in the temporary
  directory: when the page (or the element found for the selector) takes the screenshot
  without raising, that path is the one handed to the engine and the one named in the
  result.
\<close>

theorem screenshot_ignores_file_path:
  "browser_screenshot E sel fp = browser_screenshot E sel fp' \<and>
   (ensure_browser E s = (Inr pg, (m, tr)) \<longrightarrow>
      lies_in (tempdir E) (path_join (tempdir E) (''screenshot_'' @ strftime (now E tr) @ ''.png'')) \<and>
      (\<not> truthy sel \<and>
       raises E tr (PageScreenshot pg
         (path_join (tempdir E) (''screenshot_'' @ strftime (now E tr) @ ''.png''))) = None \<longrightarrow>
         browser_screenshot E sel fp s =
           (Inr (''Screenshot saved to ''
                  @ path_join (tempdir E) (''screenshot_'' @ strftime (now E tr) @ ''.png'')),
            (m, tr @ [PageScreenshot pg
               (path_join (tempdir E) (''screenshot_'' @ strftime (now E tr) @ ''.png''))]))) \<and>
      (truthy sel \<and> raises E tr (QuerySelector pg sel) = None \<and>
       finds E tr (QuerySelector pg sel) \<and>
       raises E (tr @ [QuerySelector pg sel]) (ElementScreenshot (length tr)
         (path_join (tempdir E) (''screenshot_'' @ strftime (now E tr) @ ''.png''))) = None \<longrightarrow>
         browser_screenshot E sel fp s =
           (Inr (''Screenshot saved to ''
                  @ path_join (tempdir E) (''screenshot_'' @ strftime (now E tr) @ ''.png'')),
            (m, tr @ [QuerySelector pg sel, ElementScreenshot (length tr)
               (path_join (tempdir E) (''screenshot_'' @ strftime (now E tr) @ ''.png''))]))))"
proof (intro conjI impI)
  show "browser_screenshot E sel fp = browser_screenshot E sel fp'"
    by (simp add: browser_screenshot_def)
next
  show "lies_in (tempdir E)
      (path_join (tempdir E) (''screenshot_'' @ strftime (now E tr) @ ''.png''))"
    by (rule lies_in_stamped) simp_all
next
  assume "ensure_browser E s = (Inr pg, (m, tr))"
    and "\<not> truthy sel \<and>
       raises E tr (PageScreenshot pg
         (path_join (tempdir E) (''screenshot_'' @ strftime (now E tr) @ ''.png''))) = None"
  then show "browser_screenshot E sel fp s =
           (Inr (''Screenshot saved to ''
                  @ path_join (tempdir E) (''screenshot_'' @ strftime (now E tr) @ ''.png'')),
            (m, tr @ [PageScreenshot pg
               (path_join (tempdir E) (''screenshot_'' @ strftime (now E tr) @ ''.png''))]))"
    using screenshot_page by blast
next
  assume "ensure_browser E s = (Inr pg, (m, tr))"
    and "truthy sel \<and> raises E tr (QuerySelector pg sel) = None \<and>
       finds E tr (QuerySelector pg sel) \<and>
       raises E (tr @ [QuerySelector pg sel]) (ElementScreenshot (length tr)
         (path_join (tempdir E) (''screenshot_'' @ strftime (now E tr) @ ''.png''))) = None"
  then show "browser_screenshot E sel fp s =
           (Inr (''Screenshot saved to ''
                  @ path_join (tempdir E) (''screenshot_'' @ strftime (now E tr) @ ''.png'')),
            (m, tr @ [QuerySelector pg sel, ElementScreenshot (length tr)
               (path_join (tempdir E) (''screenshot_'' @ strftime (now E tr) @ ''.png''))]))"
    using screenshot_element by blast
qed

theorem screenshot_ignores_file_path_witness:
  "ensure_browser quiet_env (ready_manager, ready_trace) = (Inr 3, (ready_manager, ready_trace)) \<and>
   browser_screenshot quiet_env PNone (PStr ''/home/me/shot.png'') (ready_manager, ready_trace) =
     (Inr ''Screenshot saved to /tmp/screenshot_20240102_030405.png'',
      (ready_manager, ready_trace @ [PageScreenshot 3 ''/tmp/screenshot_20240102_030405.png''])) \<and>
   browser_screenshot quiet_env PNone (PStr ''/home/me/shot.png'') =
     browser_screenshot quiet_env PNone PNone \<and>
   lies_in (tempdir quiet_env) ''/tmp/screenshot_20240102_030405.png''"
proof -
  note t = screenshot_ignores_file_path [where E = quiet_env and sel = PNone
      and fp = "PStr ''/home/me/shot.png''" and fp' = PNone
      and s = "(ready_manager, ready_trace)" and pg = 3 and m = ready_manager
      and tr = ready_trace, unfolded quiet_env_screenshot_path]
  have e: "ensure_browser quiet_env (ready_manager, ready_trace)
      = (Inr 3, (ready_manager, ready_trace))"
    by (rule ensure_browser_ready_session)
  have h: "\<not> truthy PNone \<and>
      raises quiet_env ready_trace (PageScreenshot 3 ''/tmp/screenshot_20240102_030405.png'') = None"
    by (simp add: quiet_env_raises)
  note u = t [THEN conjunct2, THEN mp, OF e]
  have a: "browser_screenshot quiet_env PNone (PStr ''/home/me/shot.png'')
        (ready_manager, ready_trace) =
     (Inr ''Screenshot saved to /tmp/screenshot_20240102_030405.png'',
      (ready_manager, ready_trace @ [PageScreenshot 3 ''/tmp/screenshot_20240102_030405.png'']))"
    using u [THEN conjunct2, THEN conjunct1, THEN mp, OF h] by simp
  from e a t [THEN conjunct1] u [THEN conjunct1] show ?thesis by (intro conjI)
qed

subsection \<open>Locating elements\<close>

lemma nonempty_string_valid:
  "nonempty_string v \<Longrightarrow> truthy v \<and> isinstance_str v"
  by (cases v) (simp_all add: nonempty_string_def)

lemma click_result:
  assumes "ensure_browser E s = (Inr pg, (m, tr))" and "nonempty_string sel"
  shows "browser_click E sel s =
     ((case raises E tr (Click pg (py_str sel)) of
         None \<Rightarrow> Inr (''Clicked element with selector '' @ sq @ py_str sel @ sq)
       | Some e \<Rightarrow> Inr (''Could not click element: '' @ exn_str e)),
      (m, tr @ [Click pg (py_str sel)]))"
  using assms nonempty_string_valid [of sel]
  by (simp add: browser_click_def io_bind_def io_try_def engine_call_def engine_ask_cases
      io_return_def split: option.splits)

lemma fill_result:
  assumes "ensure_browser E s = (Inr pg, (m, tr))" and "nonempty_string sel"
    and "isinstance_str filled"
  shows "browser_fill E sel filled s =
     ((case raises E tr (PageFill pg (py_str sel) (py_str filled)) of
         None \<Rightarrow> Inr (''Filled text in element with selector '' @ sq @ py_str sel @ sq)
       | Some e \<Rightarrow> Inr (''Could not fill element: '' @ exn_str e)),
      (m, tr @ [PageFill pg (py_str sel) (py_str filled)]))"
  using assms nonempty_string_valid [of sel]
  by (simp add: browser_fill_def io_bind_def io_try_def engine_call_def engine_ask_cases
      io_return_def split: option.splits)

lemma no_match_env_facts:
  "raises no_match_env tr (Click p sel) = Some (EngineError ''Timeout 5000ms exceeded.'')"
  "raises no_match_env tr (PageFill p sel t) = Some (EngineError ''Timeout 30000ms exceeded.'')"
  "raises no_match_env tr (QuerySelector p v) = None"
  "finds no_match_env tr op = False"
  by (simp_all add: no_match_env_def quiet_env_def)

text \<open>
  C7 (as amended). The element screenshot looks the element up first: when the query
  finds nothing, the tool returns its own not-found message and the query is the only
  call it has made. \<^verbatim>\<open>browser_click\<close> and \<^verbatim>\<open>browser_fill\<close> make no query: their only call
  is the engine's click or fill with the selector, and when that raises, the message
  carries the engine's own error.
\<close>

theorem element_lookup:
  assumes "ensure_browser E s = (Inr pg, (m, tr))"
  shows "(truthy sel \<and> raises E tr (QuerySelector pg sel) = None \<and>
          \<not> finds E tr (QuerySelector pg sel) \<longrightarrow>
            browser_screenshot E sel fp s =
              (Inr (''Error: Could not find element with selector '' @ sq @ py_str sel @ sq),
               (m, tr @ [QuerySelector pg sel]))) \<and>
         (nonempty_string sel \<longrightarrow>
            browser_click E sel s =
              ((case raises E tr (Click pg (py_str sel)) of
                  None \<Rightarrow> Inr (''Clicked element with selector '' @ sq @ py_str sel @ sq)
                | Some e \<Rightarrow> Inr (''Could not click element: '' @ exn_str e)),
               (m, tr @ [Click pg (py_str sel)]))) \<and>
         (nonempty_string sel \<and> isinstance_str filled \<longrightarrow>
            browser_fill E sel filled s =
              ((case raises E tr (PageFill pg (py_str sel) (py_str filled)) of
                  None \<Rightarrow> Inr (''Filled text in element with selector '' @ sq @ py_str sel @ sq)
                | Some e \<Rightarrow> Inr (''Could not fill element: '' @ exn_str e)),
               (m, tr @ [PageFill pg (py_str sel) (py_str filled)])))"
  using assms screenshot_not_found [OF assms] click_result [OF assms] fill_result [OF assms]
  by blast

theorem element_lookup_witness:
  "ensure_browser no_match_env (ready_manager, ready_trace)
     = (Inr 3, (ready_manager, ready_trace)) \<and>
   browser_screenshot no_match_env (PStr ''#missing'') PNone (ready_manager, ready_trace) =
     (Inr (''Error: Could not find element with selector '' @ sq @ ''#missing'' @ sq),
      (ready_manager, ready_trace @ [QuerySelector 3 (PStr ''#missing'')])) \<and>
   browser_click no_match_env (PStr ''#missing'') (ready_manager, ready_trace) =
     (Inr ''Could not click element: Timeout 5000ms exceeded.'',
      (ready_manager, ready_trace @ [Click 3 ''#missing''])) \<and>
   browser_fill no_match_env (PStr ''#missing'') (PStr ''abc'') (ready_manager, ready_trace) =
     (Inr ''Could not fill element: Timeout 30000ms exceeded.'',
      (ready_manager, ready_trace @ [PageFill 3 ''#missing'' ''abc'']))"
proof -
  have e: "ensure_browser no_match_env (ready_manager, ready_trace)
      = (Inr 3, (ready_manager, ready_trace))"
    by (rule ensure_browser_ready_session)
  note t = element_lookup [OF e, where sel = "PStr ''#missing''" and fp = PNone
      and filled = "PStr ''abc''"]
  have h1: "truthy (PStr ''#missing'') \<and>
      raises no_match_env ready_trace (QuerySelector 3 (PStr ''#missing'')) = None \<and>
      \<not> finds no_match_env ready_trace (QuerySelector 3 (PStr ''#missing''))"
    by (simp add: no_match_env_facts)
  have h2: "nonempty_string (PStr ''#missing'')"
    by (simp add: nonempty_string_def)
  have h3: "nonempty_string (PStr ''#missing'') \<and> isinstance_str (PStr ''abc'')"
    by (simp add: nonempty_string_def)
  have a: "browser_screenshot no_match_env (PStr ''#missing'') PNone (ready_manager, ready_trace) =
     (Inr (''Error: Could not find element with selector '' @ sq @ ''#missing'' @ sq),
      (ready_manager, ready_trace @ [QuerySelector 3 (PStr ''#missing'')]))"
    using t [THEN conjunct1, THEN mp, OF h1] by simp
  have b: "browser_click no_match_env (PStr ''#missing'') (ready_manager, ready_trace) =
     (Inr ''Could not click element: Timeout 5000ms exceeded.'',
      (ready_manager, ready_trace @ [Click 3 ''#missing'']))"
    using t [THEN conjunct2, THEN conjunct1, THEN mp, OF h2] by (simp add: no_match_env_facts)
  have c: "browser_fill no_match_env (PStr ''#missing'') (PStr ''abc'') (ready_manager, ready_trace) =
     (Inr ''Could not fill element: Timeout 30000ms exceeded.'',
      (ready_manager, ready_trace @ [PageFill 3 ''#missing'' ''abc'']))"
    using t [THEN conjunct2, THEN conjunct2, THEN mp, OF h3] by (simp add: no_match_env_facts)
  from e a b c show ?thesis by (intro conjI)
qed

text \<open>
  With a selector that matches nothing, \<^verbatim>\<open>browser_click\<close> attempts the click itself, makes
  no query, and reports the engine's timeout.
\<close>

theorem click_without_lookup_counterexample:
  "browser_click no_match_env (PStr ''#missing'') (ready_manager, ready_trace) =
     (Inr ''Could not click element: Timeout 5000ms exceeded.'',
      (ready_manager, ready_trace @ [Click 3 ''#missing'']))"
  using click_result [OF ensure_browser_ready_session, where E = no_match_env
      and sel = "PStr ''#missing''"]
  by (simp add: no_match_env_facts nonempty_string_def)

subsection \<open>Default output paths\<close>

lemma save_as_pdf_result:
  assumes "io_bind (pdf_reconfigure E) (\<lambda>_. ensure_browser E) s = (Inr pg, (m, tr))"
    and "raises E tr (Pdf pg (path_join (tempdir E) (''page_'' @ strftime (now E tr) @ ''.pdf''))
           (truthy landscape) (if truthy format then Some format else None)) = None"
  shows "browser_save_as_pdf E landscape format s =
     (Inr (''PDF saved to '' @ path_join (tempdir E) (''page_'' @ strftime (now E tr) @ ''.pdf'')),
      (m, tr @ [Pdf pg (path_join (tempdir E) (''page_'' @ strftime (now E tr) @ ''.pdf''))
                  (truthy landscape) (if truthy format then Some format else None)]))"
proof -
  from assms(1) obtain u s1 where a: "pdf_reconfigure E s = (Inr u, s1)"
    and b: "ensure_browser E s1 = (Inr pg, (m, tr))"
    by (rule io_bind_InrE)
  show ?thesis
    unfolding browser_save_as_pdf_def
    apply (simp only: io_bind_step [where f = "pdf_reconfigure E", OF a])
    apply (simp only: io_bind_step [where f = "ensure_browser E", OF b])
    using assms(2)
    apply (simp add: timestamp_def io_bind_def io_try_def engine_call_def engine_ask_cases
        io_return_def Let_def)
    done
qed

lemma save_page_screenshot_default:
  assumes "ensure_browser E s = (Inr pg, (m, tr))" and "\<not> truthy fp"
    and "raises E tr (PageScreenshot pg
           (path_join (work_dir E) (''screenshot_'' @ strftime (now E tr) @ ''.png''))) = None"
  shows "save_page_screenshot E fp s =
     (Inr (''Screenshot saved to ''
            @ path_join (work_dir E) (''screenshot_'' @ strftime (now E tr) @ ''.png'')),
      (m, tr @ [PageScreenshot pg
                  (path_join (work_dir E) (''screenshot_'' @ strftime (now E tr) @ ''.png''))]))"
  using assms
  by (simp add: save_page_screenshot_def io_bind_def timestamp_def io_try_def
      engine_call_def engine_ask_cases io_return_def)

lemma save_page_as_html_default:
  assumes "ensure_browser E s = (Inr pg, (m, tr))" and "\<not> truthy fp"
    and "raises E tr (Content pg) = None"
    and "raises E (tr @ [Content pg])
           (FileWrite (PStr (path_join (work_dir E) (''page_'' @ strftime (now E tr) @ ''.html'')))
              (texts E tr (Content pg))) = None"
  shows "save_page_as_html E fp s =
     (Inr (''HTML saved to '' @ path_join (work_dir E) (''page_'' @ strftime (now E tr) @ ''.html'')),
      (m, tr @ [Content pg,
                FileWrite (PStr (path_join (work_dir E) (''page_'' @ strftime (now E tr) @ ''.html'')))
                  (texts E tr (Content pg))]))"
  using assms
  by (simp add: save_page_as_html_def io_bind_def timestamp_def io_try_def
      engine_call_def engine_text_def engine_ask_cases io_return_def)

lemma save_element_as_html_default:
  assumes "ensure_browser E s = (Inr pg, (m, tr))" and "\<not> truthy fp"
    and "nonempty_string xpath"
    and "raises E tr (QuerySelector pg (PStr (''xpath='' @ py_str xpath))) = None"
    and "finds E tr (QuerySelector pg (PStr (''xpath='' @ py_str xpath)))"
    and "raises E (tr @ [QuerySelector pg (PStr (''xpath='' @ py_str xpath))])
           (Evaluate (length tr) OuterHTML) = None"
    and "texts E (tr @ [QuerySelector pg (PStr (''xpath='' @ py_str xpath))])
           (Evaluate (length tr) OuterHTML) \<noteq> []"
    and "raises E (tr @ [QuerySelector pg (PStr (''xpath='' @ py_str xpath)),
                         Evaluate (length tr) OuterHTML])
           (FileWrite (PStr (path_join (work_dir E) (''element_'' @ strftime (now E tr) @ ''.html'')))
              (full_html (py_str xpath)
                 (texts E (tr @ [QuerySelector pg (PStr (''xpath='' @ py_str xpath))])
                    (Evaluate (length tr) OuterHTML)))) = None"
  shows "save_element_as_html E xpath fp s =
     (Inr (''Element HTML saved to ''
            @ path_join (work_dir E) (''element_'' @ strftime (now E tr) @ ''.html'')),
      (m, tr @ [QuerySelector pg (PStr (''xpath='' @ py_str xpath)),
                Evaluate (length tr) OuterHTML,
                FileWrite (PStr (path_join (work_dir E) (''element_'' @ strftime (now E tr) @ ''.html'')))
                  (full_html (py_str xpath)
                     (texts E (tr @ [QuerySelector pg (PStr (''xpath='' @ py_str xpath))])
                        (Evaluate (length tr) OuterHTML)))]))"
  using assms nonempty_string_valid [of xpath]
  by (simp add: save_element_as_html_def io_bind_def timestamp_def io_try_def
      engine_call_def engine_text_def engine_find_def engine_ask_cases io_return_def)

lemma match_env_facts:
  "raises match_env tr op = None"
  "finds match_env tr op = True"
  "texts match_env tr op = ''<p>x</p>''"
  "strftime (now match_env tr) = ''20240102_030405''"
  "tempdir match_env = ''/tmp''" "work_dir match_env = ''/srv/app''"
  by (simp_all add: match_env_def quiet_env_def strftime_def four_digits_def two_digits_def
      digit_chr_def)

lemma quiet_env_texts:
  "texts quiet_env tr op = []"
  by (simp add: quiet_env_def)

lemma reconfigure_acquire_ready:
  "io_bind (pdf_reconfigure quiet_env) (\<lambda>_. ensure_browser quiet_env)
     (ready_manager, ready_trace)
   = (Inr 11, (pw_manager\<lparr>playwright := Some 8, browser := Some 9,
                 browser_context := Some 10, page := Some 11\<rparr>,
              ready_trace @ [PageClose 3, ContextClose 2, BrowserClose 1, Stop 0,
                Start, Launch 8 Chromium False, NewContext 9 (Some (1200, 900)), NewPage 10]))"
  by (simp only: io_bind_step [where f = "pdf_reconfigure quiet_env", OF pdf_reconfigure_ready]
      ensure_browser_after_close)

lemmas path_eval = quiet_env_timestamp quiet_env_dirs match_env_facts path_join_def
  take_one_Cons quiet_env_raises

text \<open>
  C9 (as amended). Called without a path, \<^verbatim>\<open>browser_save_as_pdf\<close> and
  \<^verbatim>\<open>browser_screenshot\<close> write to a file in the temporary directory, and
  \<^verbatim>\<open>save_page_screenshot\<close>, \<^verbatim>\<open>save_page_as_html\<close> and \<^verbatim>\<open>save_element_as_html\<close> write to a
  file in the directory of the module (\<^verbatim>\<open>work_dir\<close>). Each file name is a fixed stem, the
  time stamp read once the page is acquired, and the extension; when the calls of the
  tool raise nothing, that path is the one written and the one named in the result.
\<close>

theorem default_output_paths:
  fixes E :: env and tr :: "engine_op list" and xpath :: pyval and pg :: handle
  defines "ts \<equiv> strftime (now E tr)"
  defines "pdf_path \<equiv> path_join (tempdir E) (''page_'' @ ts @ ''.pdf'')"
    and "shot_path \<equiv> path_join (tempdir E) (''screenshot_'' @ ts @ ''.png'')"
    and "page_shot_path \<equiv> path_join (work_dir E) (''screenshot_'' @ ts @ ''.png'')"
    and "page_html_path \<equiv> path_join (work_dir E) (''page_'' @ ts @ ''.html'')"
    and "element_html_path \<equiv> path_join (work_dir E) (''element_'' @ ts @ ''.html'')"
  defines "query \<equiv> QuerySelector pg (PStr (''xpath='' @ py_str xpath))"
  defines "outer \<equiv> texts E (tr @ [query]) (Evaluate (length tr) OuterHTML)"
  assumes "\<not> truthy fp"
  shows
    "lies_in (tempdir E) pdf_path \<and> lies_in (tempdir E) shot_path \<and>
     lies_in (work_dir E) page_shot_path \<and> lies_in (work_dir E) page_html_path \<and>
     lies_in (work_dir E) element_html_path \<and>
     (io_bind (pdf_reconfigure E) (\<lambda>_. ensure_browser E) s = (Inr pg, (m, tr)) \<and>
      raises E tr (Pdf pg pdf_path (truthy landscape)
                     (if truthy format then Some format else None)) = None \<longrightarrow>
        browser_save_as_pdf E landscape format s =
          (Inr (''PDF saved to '' @ pdf_path),
           (m, tr @ [Pdf pg pdf_path (truthy landscape)
                       (if truthy format then Some format else None)]))) \<and>
     (ensure_browser E s = (Inr pg, (m, tr)) \<longrightarrow>
        (\<not> truthy sel \<and> raises E tr (PageScreenshot pg shot_path) = None \<longrightarrow>
           browser_screenshot E sel fp s =
             (Inr (''Screenshot saved to '' @ shot_path),
              (m, tr @ [PageScreenshot pg shot_path]))) \<and>
        (raises E tr (PageScreenshot pg page_shot_path) = None \<longrightarrow>
           save_page_screenshot E fp s =
             (Inr (''Screenshot saved to '' @ page_shot_path),
              (m, tr @ [PageScreenshot pg page_shot_path]))) \<and>
        (raises E tr (Content pg) = None \<and>
         raises E (tr @ [Content pg])
           (FileWrite (PStr page_html_path) (texts E tr (Content pg))) = None \<longrightarrow>
           save_page_as_html E fp s =
             (Inr (''HTML saved to '' @ page_html_path),
              (m, tr @ [Content pg,
                        FileWrite (PStr page_html_path) (texts E tr (Content pg))]))) \<and>
        (nonempty_string xpath \<and> raises E tr query = None \<and> finds E tr query \<and>
         raises E (tr @ [query]) (Evaluate (length tr) OuterHTML) = None \<and> outer \<noteq> [] \<and>
         raises E (tr @ [query, Evaluate (length tr) OuterHTML])
           (FileWrite (PStr element_html_path) (full_html (py_str xpath) outer)) = None \<longrightarrow>
           save_element_as_html E xpath fp s =
             (Inr (''Element HTML saved to '' @ element_html_path),
              (m, tr @ [query, Evaluate (length tr) OuterHTML,
                        FileWrite (PStr element_html_path) (full_html (py_str xpath) outer)]))))"
proof -
  have l1: "lies_in (tempdir E) pdf_path"
    unfolding pdf_path_def ts_def by (rule lies_in_stamped) simp_all
  have l2: "lies_in (tempdir E) shot_path"
    unfolding shot_path_def ts_def by (rule lies_in_stamped) simp_all
  have l3: "lies_in (work_dir E) page_shot_path"
    unfolding page_shot_path_def ts_def by (rule lies_in_stamped) simp_all
  have l4: "lies_in (work_dir E) page_html_path"
    unfolding page_html_path_def ts_def by (rule lies_in_stamped) simp_all
  have l5: "lies_in (work_dir E) element_html_path"
    unfolding element_html_path_def ts_def by (rule lies_in_stamped) simp_all
  have pdf: "browser_save_as_pdf E landscape format s =
          (Inr (''PDF saved to '' @ pdf_path),
           (m, tr @ [Pdf pg pdf_path (truthy landscape)
                       (if truthy format then Some format else None)]))"
    if "io_bind (pdf_reconfigure E) (\<lambda>_. ensure_browser E) s = (Inr pg, (m, tr)) \<and>
      raises E tr (Pdf pg pdf_path (truthy landscape)
                     (if truthy format then Some format else None)) = None"
    using that unfolding pdf_path_def ts_def by (simp add: save_as_pdf_result)
  have shot: "browser_screenshot E sel fp s =
             (Inr (''Screenshot saved to '' @ shot_path),
              (m, tr @ [PageScreenshot pg shot_path]))"
    if "ensure_browser E s = (Inr pg, (m, tr))"
      and "\<not> truthy sel \<and> raises E tr (PageScreenshot pg shot_path) = None"
    using that unfolding shot_path_def ts_def by (simp add: screenshot_page)
  have pshot: "save_page_screenshot E fp s =
             (Inr (''Screenshot saved to '' @ page_shot_path),
              (m, tr @ [PageScreenshot pg page_shot_path]))"
    if "ensure_browser E s = (Inr pg, (m, tr))"
      and "raises E tr (PageScreenshot pg page_shot_path) = None"
    using that assms unfolding page_shot_path_def ts_def
    by (simp add: save_page_screenshot_default)
  have phtml: "save_page_as_html E fp s =
             (Inr (''HTML saved to '' @ page_html_path),
              (m, tr @ [Content pg,
                        FileWrite (PStr page_html_path) (texts E tr (Content pg))]))"
    if "ensure_browser E s = (Inr pg, (m, tr))"
      and "raises E tr (Content pg) = None \<and>
         raises E (tr @ [Content pg])
           (FileWrite (PStr page_html_path) (texts E tr (Content pg))) = None"
    using that assms unfolding page_html_path_def ts_def
    by (simp add: save_page_as_html_default)
  have ehtml: "save_element_as_html E xpath fp s =
             (Inr (''Element HTML saved to '' @ element_html_path),
              (m, tr @ [query, Evaluate (length tr) OuterHTML,
                        FileWrite (PStr element_html_path) (full_html (py_str xpath) outer)]))"
    if "ensure_browser E s = (Inr pg, (m, tr))"
      and "nonempty_string xpath \<and> raises E tr query = None \<and> finds E tr query \<and>
         raises E (tr @ [query]) (Evaluate (length tr) OuterHTML) = None \<and> outer \<noteq> [] \<and>
         raises E (tr @ [query, Evaluate (length tr) OuterHTML])
           (FileWrite (PStr element_html_path) (full_html (py_str xpath) outer)) = None"
    using that assms unfolding element_html_path_def ts_def query_def outer_def
    by (simp add: save_element_as_html_default)
  from l1 l2 l3 l4 l5 pdf shot pshot phtml ehtml show ?thesis
    by (intro conjI impI) assumption+
qed

theorem default_output_paths_witness:
  "\<not> truthy PNone \<and>
   browser_save_as_pdf quiet_env (PBool True) PNone (ready_manager, ready_trace) =
     (Inr ''PDF saved to /tmp/page_20240102_030405.pdf'',
      (pw_manager\<lparr>playwright := Some 8, browser := Some 9,
          browser_context := Some 10, page := Some 11\<rparr>,
       ready_trace @ [PageClose 3, ContextClose 2, BrowserClose 1, Stop 0,
         Start, Launch 8 Chromium False, NewContext 9 (Some (1200, 900)), NewPage 10,
         Pdf 11 ''/tmp/page_20240102_030405.pdf'' True None])) \<and>
   browser_screenshot quiet_env PNone PNone (ready_manager, ready_trace) =
     (Inr ''Screenshot saved to /tmp/screenshot_20240102_030405.png'',
      (ready_manager, ready_trace @ [PageScreenshot 3 ''/tmp/screenshot_20240102_030405.png''])) \<and>
   save_page_screenshot quiet_env PNone (ready_manager, ready_trace) =
     (Inr ''Screenshot saved to /srv/app/screenshot_20240102_030405.png'',
      (ready_manager,
       ready_trace @ [PageScreenshot 3 ''/srv/app/screenshot_20240102_030405.png''])) \<and>
   save_page_as_html quiet_env PNone (ready_manager, ready_trace) =
     (Inr ''HTML saved to /srv/app/page_20240102_030405.html'',
      (ready_manager,
       ready_trace @ [Content 3, FileWrite (PStr ''/srv/app/page_20240102_030405.html'') []])) \<and>
   save_element_as_html match_env (PStr ''//p'') PNone (ready_manager, ready_trace) =
     (Inr ''Element HTML saved to /srv/app/element_20240102_030405.html'',
      (ready_manager,
       ready_trace @ [QuerySelector 3 (PStr ''xpath=//p''), Evaluate 4 OuterHTML,
         FileWrite (PStr ''/srv/app/element_20240102_030405.html'')
           (full_html ''//p'' ''<p>x</p>'')])) \<and>
   lies_in ''/tmp'' ''/tmp/page_20240102_030405.pdf'' \<and>
   lies_in ''/srv/app'' ''/srv/app/page_20240102_030405.html''"
proof -
  have n: "\<not> truthy PNone" by simp
  have len: "length ready_trace = 4" by (simp add: ready_trace_def)
  note q = default_output_paths [OF n, where E = quiet_env and tr = ready_trace and pg = 3
      and m = ready_manager and s = "(ready_manager, ready_trace)" and sel = PNone]
  note q2 = q [THEN conjunct2, THEN conjunct2, THEN conjunct2, THEN conjunct2, THEN conjunct2,
      THEN conjunct2, THEN mp, OF ensure_browser_ready_session]
  have l1: "lies_in ''/tmp'' ''/tmp/page_20240102_030405.pdf''"
    using q [THEN conjunct1] by (simp add: path_eval)
  have l2: "lies_in ''/srv/app'' ''/srv/app/page_20240102_030405.html''"
    using q [THEN conjunct2, THEN conjunct2, THEN conjunct2, THEN conjunct1]
    by (simp add: path_eval)
  have pdf: "browser_save_as_pdf quiet_env (PBool True) PNone (ready_manager, ready_trace) =
     (Inr ''PDF saved to /tmp/page_20240102_030405.pdf'',
      (pw_manager\<lparr>playwright := Some 8, browser := Some 9,
          browser_context := Some 10, page := Some 11\<rparr>,
       ready_trace @ [PageClose 3, ContextClose 2, BrowserClose 1, Stop 0,
         Start, Launch 8 Chromium False, NewContext 9 (Some (1200, 900)), NewPage 10,
         Pdf 11 ''/tmp/page_20240102_030405.pdf'' True None]))"
    using default_output_paths [OF n, where E = quiet_env and pg = 11
        and s = "(ready_manager, ready_trace)" and landscape = "PBool True" and format = PNone
        and m = "pw_manager\<lparr>playwright := Some 8, browser := Some 9,
          browser_context := Some 10, page := Some 11\<rparr>"
        and tr = "ready_trace @ [PageClose 3, ContextClose 2, BrowserClose 1, Stop 0,
          Start, Launch 8 Chromium False, NewContext 9 (Some (1200, 900)), NewPage 10]",
        THEN conjunct2, THEN conjunct2, THEN conjunct2, THEN conjunct2, THEN conjunct2,
        THEN conjunct1]
      reconfigure_acquire_ready
    by (simp add: path_eval del: One_nat_def)
  have shot: "browser_screenshot quiet_env PNone PNone (ready_manager, ready_trace) =
     (Inr ''Screenshot saved to /tmp/screenshot_20240102_030405.png'',
      (ready_manager, ready_trace @ [PageScreenshot 3 ''/tmp/screenshot_20240102_030405.png'']))"
    using q2 [THEN conjunct1] by (simp add: path_eval)
  have pshot: "save_page_screenshot quiet_env PNone (ready_manager, ready_trace) =
     (Inr ''Screenshot saved to /srv/app/screenshot_20240102_030405.png'',
      (ready_manager,
       ready_trace @ [PageScreenshot 3 ''/srv/app/screenshot_20240102_030405.png'']))"
    using q2 [THEN conjunct2, THEN conjunct1] by (simp add: path_eval)
  have phtml: "save_page_as_html quiet_env PNone (ready_manager, ready_trace) =
     (Inr ''HTML saved to /srv/app/page_20240102_030405.html'',
      (ready_manager,
       ready_trace @ [Content 3, FileWrite (PStr ''/srv/app/page_20240102_030405.html'') []]))"
    using q2 [THEN conjunct2, THEN conjunct2, THEN conjunct1]
    by (simp add: path_eval quiet_env_texts)
  have ehtml: "save_element_as_html match_env (PStr ''//p'') PNone (ready_manager, ready_trace) =
     (Inr ''Element HTML saved to /srv/app/element_20240102_030405.html'',
      (ready_manager,
       ready_trace @ [QuerySelector 3 (PStr ''xpath=//p''), Evaluate 4 OuterHTML,
         FileWrite (PStr ''/srv/app/element_20240102_030405.html'')
           (full_html ''//p'' ''<p>x</p>'')]))"
    using default_output_paths [OF n, where E = match_env and tr = ready_trace and pg = 3
        and m = ready_manager and s = "(ready_manager, ready_trace)"
        and xpath = "PStr ''//p''",
        THEN conjunct2, THEN conjunct2, THEN conjunct2, THEN conjunct2, THEN conjunct2,
        THEN conjunct2, THEN mp, OF ensure_browser_ready_session,
        THEN conjunct2, THEN conjunct2, THEN conjunct2]
    by (simp add: path_eval len nonempty_string_def)
  from n pdf shot pshot phtml ehtml l1 l2 show ?thesis by (intro conjI)
qed

text \<open>
  With the temporary directory \<^verbatim>\<open>/tmp\<close> and the module in \<^verbatim>\<open>/srv/app\<close>,
  \<^verbatim>\<open>save_page_as_html\<close> without a path writes to \<^verbatim>\<open>/srv/app\<close>.
\<close>

theorem default_output_paths_counterexample:
  "save_page_as_html quiet_env PNone (ready_manager, ready_trace) =
     (Inr ''HTML saved to /srv/app/page_20240102_030405.html'',
      (ready_manager,
       ready_trace @ [Content 3, FileWrite (PStr ''/srv/app/page_20240102_030405.html'') []])) \<and>
   tempdir quiet_env = ''/tmp'' \<and>
   \<not> lies_in ''/tmp'' ''/srv/app/page_20240102_030405.html''"
proof -
  have a: "save_page_as_html quiet_env PNone (ready_manager, ready_trace) =
     (Inr ''HTML saved to /srv/app/page_20240102_030405.html'',
      (ready_manager,
       ready_trace @ [Content 3, FileWrite (PStr ''/srv/app/page_20240102_030405.html'') []]))"
    using save_page_as_html_default [OF ensure_browser_ready_session, where E = quiet_env
        and fp = PNone]
    by (simp add: path_eval quiet_env_texts)
  have b: "\<not> lies_in ''/tmp'' ''/srv/app/page_20240102_030405.html''"
    by (simp add: lies_in_def basename_def path_join_def)
  from a quiet_env_dirs(1) b show ?thesis by (intro conjI)
qed

section \<open>Validation and containment of failures\<close>

lemma not_nonempty_string:
  "\<not> nonempty_string v \<Longrightarrow> \<not> truthy v \<or> \<not> isinstance_str v"
  by (cases v) (simp_all add: nonempty_string_def)

lemma ensure_browser_fresh_any:
  assumes "\<And>tr op. lifecycle_op op \<Longrightarrow> raises E tr op = None"
  shows "ensure_browser E (pw_manager, []) = (Inr 3, (ready_manager, ready_trace))"
  by (simp add: ensure_defs io_defs assms pw_manager_def ready_manager_def ready_trace_def)

text \<open>
  C8 (as amended). A tool with a required argument checks it before it acquires the
  page: when a required selector, URL, XPath or key is not a non-empty string, a
  required text is not a string, or a step is not an integer, the tool returns an error
  message at once and leaves the manager and the trace as they were.
\<close>

theorem validation_before_acquire:
  assumes "malformed a"
  shows "\<exists>msg. dispatch E a s = (Inr (''Error: '' @ msg), s)"
proof (cases a)
  case (Browser_Navigate url)
  with assms not_nonempty_string [of url] show ?thesis
    by (auto simp: browser_navigate_def io_return_def)
next
  case (Browser_Fill selector filled)
  with assms not_nonempty_string [of selector] show ?thesis
    by (auto simp: browser_fill_def io_return_def)
next
  case (Browser_Find_By_XPath xpath)
  with assms not_nonempty_string [of xpath] show ?thesis
    by (auto simp: browser_find_by_xpath_def io_return_def)
next
  case (Browser_Click selector)
  with assms not_nonempty_string [of selector] show ?thesis
    by (auto simp: browser_click_def io_return_def)
next
  case (Browser_Scroll_To_Element selector)
  with assms not_nonempty_string [of selector] show ?thesis
    by (auto simp: browser_scroll_to_element_def io_return_def)
next
  case (Get_Element_HTML xpath)
  with assms not_nonempty_string [of xpath] show ?thesis
    by (auto simp: get_element_html_def io_return_def)
next
  case (Get_Element_Text xpath)
  with assms not_nonempty_string [of xpath] show ?thesis
    by (auto simp: get_element_text_def io_return_def)
next
  case (Save_Element_As_HTML xpath file_path)
  with assms not_nonempty_string [of xpath] show ?thesis
    by (auto simp: save_element_as_html_def io_return_def)
next
  case (Clear_Field xpath)
  with assms not_nonempty_string [of xpath] show ?thesis
    by (auto simp: clear_field_def io_return_def)
next
  case (Browser_Press_Key key)
  with assms not_nonempty_string [of key] show ?thesis
    by (auto simp: browser_press_key_def io_return_def)
next
  case (Browser_Scroll_One_Step step)
  with assms show ?thesis
    by (auto simp: browser_scroll_one_step_def io_return_def)
qed (use assms in simp_all)

theorem validation_before_acquire_witness:
  "malformed (Browser_Click (PStr [])) \<and> malformed (Browser_Navigate (PInt 7)) \<and>
   (\<exists>msg. dispatch quiet_env (Browser_Click (PStr [])) (pw_manager, [])
       = (Inr (''Error: '' @ msg), (pw_manager, []))) \<and>
   (\<exists>msg. dispatch quiet_env (Browser_Navigate (PInt 7)) (pw_manager, [])
       = (Inr (''Error: '' @ msg), (pw_manager, [])))"
proof -
  have a: "malformed (Browser_Click (PStr []))"
    by (simp add: nonempty_string_def)
  have b: "malformed (Browser_Navigate (PInt 7))"
    by (simp add: nonempty_string_def)
  from a b validation_before_acquire [OF a, of quiet_env "(pw_manager, [])"]
    validation_before_acquire [OF b, of quiet_env "(pw_manager, [])"]
  show ?thesis by (intro conjI)
qed

text \<open>
  The optional selector of \<^verbatim>\<open>browser_screenshot\<close> is not checked: called on the empty
  session with a selector that is no string, the tool starts the driver, launches the
  browser and opens a context and a page before the engine rejects the selector.
\<close>

theorem screenshot_acquires_counterexample:
  "\<not> isinstance_str (PInt 5) \<and>
   dispatch strict_env (Browser_Screenshot (PInt 5) PNone) (pw_manager, []) =
     (Inr ''Failed to take screenshot: selector: expected string, got number'',
      (ready_manager, ready_trace @ [QuerySelector 3 (PInt 5)])) \<and>
   ready_trace @ [QuerySelector 3 (PInt 5)] =
     [Start, Launch 0 Chromium False, NewContext 1 (Some (1200, 900)), NewPage 2,
      QuerySelector 3 (PInt 5)]"
proof -
  have l: "raises strict_env tr op = None" if "lifecycle_op op" for tr op
    using that by (cases op) (simp_all add: strict_env_def quiet_env_def)
  have e: "ensure_browser strict_env (pw_manager, []) = (Inr 3, (ready_manager, ready_trace))"
    by (rule ensure_browser_fresh_any) (rule l)
  have r: "raises strict_env tr (QuerySelector 3 (PInt 5))
      = Some (EngineError ''selector: expected string, got number'')" for tr
    by (simp add: strict_env_def quiet_env_def)
  have "dispatch strict_env (Browser_Screenshot (PInt 5) PNone) (pw_manager, []) =
     (Inr ''Failed to take screenshot: selector: expected string, got number'',
      (ready_manager, ready_trace @ [QuerySelector 3 (PInt 5)]))"
    apply (simp only: dispatch.simps browser_screenshot_def)
    apply (simp only: io_bind_step [where f = "ensure_browser strict_env", OF e])
    apply (simp add: timestamp_def io_bind_def io_try_def engine_find_def engine_ask_cases r
        io_return_def Let_def)
    done
  then show ?thesis by (simp add: ready_trace_def)
qed

subsection \<open>Exceptions that stay inside a tool\<close>

lemma returnsI:
  "(\<And>s. \<exists>r s'. c s = (Inr r, s')) \<Longrightarrow> returns c"
  unfolding returns_def by blast

lemma returnsD:
  "returns c \<Longrightarrow> \<exists>r s'. c s = (Inr r, s')"
  unfolding returns_def by blast

lemma returns_return:
  "returns (io_return x)"
  by (simp add: returns_def io_return_def)

lemma returns_bind:
  assumes "returns f" and "\<And>x. returns (g x)"
  shows "returns (io_bind f g)"
proof (rule returnsI)
  fix s
  from assms(1) obtain x s1 where f: "f s = (Inr x, s1)"
    using returnsD by blast
  from assms(2) obtain r s2 where "g x s1 = (Inr r, s2)"
    using returnsD by blast
  with f show "\<exists>r s'. io_bind f g s = (Inr r, s')"
    by (simp add: io_bind_def)
qed

lemma returns_try:
  assumes "\<And>e. returns (h e)"
  shows "returns (io_try f h)"
proof (rule returnsI)
  fix s
  obtain r s1 where f: "f s = (r, s1)" by (cases "f s")
  show "\<exists>r s'. io_try f h s = (Inr r, s')"
  proof (cases r)
    case (Inl e)
    from assms obtain y s2 where "h e s1 = (Inr y, s2)"
      using returnsD by blast
    with f Inl show ?thesis by (simp add: io_try_def)
  next
    case (Inr x)
    with f show ?thesis by (simp add: io_try_def)
  qed
qed

lemma returns_timestamp:
  "returns (timestamp E)"
  by (simp add: returns_def timestamp_def)

lemma returns_ensure_browser:
  assumes "lifecycle_ok E"
  shows "returns (ensure_browser E)"
proof (rule returnsI)
  fix s :: state
  obtain m tr where s: "s = (m, tr)" by (cases s)
  have r: "\<And>tr op. lifecycle_op op \<Longrightarrow> raises E tr op = None"
    using assms by (simp add: lifecycle_ok_def)
  show "\<exists>r s'. ensure_browser E s = (Inr r, s')"
    unfolding s by (simp add: ensure_defs io_defs r split: option.splits)
qed

lemma returns_close:
  assumes "lifecycle_ok E"
  shows "returns (close E)"
proof (rule returnsI)
  fix s :: state
  obtain m tr where s: "s = (m, tr)" by (cases s)
  have "\<forall>t op. teardown_op op \<longrightarrow> raises E t op = None"
  proof (intro allI impI)
    fix t op
    assume "teardown_op op"
    then have "lifecycle_op op" by (cases op) simp_all
    with assms show "raises E t op = None" by (simp add: lifecycle_ok_def)
  qed
  then have "\<exists>s'. close E (m, tr) = (Inr (), s')" by (rule close_total)
  then show "\<exists>r s'. close E s = (Inr r, s')" unfolding s by blast
qed

lemma returns_page_url:
  "returns (\<lambda>(m, tr). (Inr (page_url E tr pg), (m, tr)))"
  by (rule returnsI) (simp add: split_def)

lemma returns_tools:
  assumes ok: "lifecycle_ok E"
  shows "returns (browser_navigate E url)"
    and "returns (browser_close E)"
    and "returns (kill_all_chrome_instances E)"
    and "returns (browser_fill E selector filled)"
    and "returns (browser_find_by_xpath E xpath)"
    and "returns (browser_click E selector)"
    and "returns (browser_scroll_to_top E)"
    and "returns (browser_scroll_to_element E selector)"
    and "returns (get_current_url E)"
    and "returns (get_element_html E xpath)"
    and "returns (get_element_text E xpath)"
    and "returns (save_element_as_html E xpath file_path)"
    and "returns (save_page_as_html E file_path)"
    and "returns (clear_field E xpath)"
    and "returns (browser_press_key E key)"
proof -
  note eb = returns_ensure_browser [OF ok]
  show "returns (browser_navigate E url)"
    unfolding browser_navigate_def
    by (simp add: returns_return returns_bind returns_try eb)
  show "returns (browser_close E)"
    unfolding browser_close_def
    by (simp add: returns_return returns_bind returns_close [OF ok])
  show "returns (kill_all_chrome_instances E)"
    unfolding kill_all_chrome_instances_def
    by (simp add: returns_return returns_try)
  show "returns (browser_fill E selector filled)"
    unfolding browser_fill_def
    by (simp add: returns_return returns_bind returns_try eb)
  show "returns (browser_find_by_xpath E xpath)"
    unfolding browser_find_by_xpath_def
    by (simp add: returns_return returns_bind returns_try eb Let_def)
  show "returns (browser_click E selector)"
    unfolding browser_click_def
    by (simp add: returns_return returns_bind returns_try eb)
  show "returns (browser_scroll_to_top E)"
    unfolding browser_scroll_to_top_def
    by (simp add: returns_return returns_bind returns_try eb)
  show "returns (browser_scroll_to_element E selector)"
    unfolding browser_scroll_to_element_def
    by (simp add: returns_return returns_bind returns_try eb)
  show "returns (get_current_url E)"
    unfolding get_current_url_def
    by (simp add: returns_bind eb returns_page_url)
  show "returns (get_element_html E xpath)"
    unfolding get_element_html_def
    by (simp add: returns_return returns_bind returns_try eb)
  show "returns (get_element_text E xpath)"
    unfolding get_element_text_def
    by (simp add: returns_return returns_bind returns_try eb)
  show "returns (save_element_as_html E xpath file_path)"
    unfolding save_element_as_html_def
    by (simp add: returns_return returns_bind returns_try eb returns_timestamp)
  show "returns (save_page_as_html E file_path)"
    unfolding save_page_as_html_def
    by (simp add: returns_return returns_bind returns_try eb returns_timestamp)
  show "returns (clear_field E xpath)"
    unfolding clear_field_def
    by (simp add: returns_return returns_bind returns_try eb)
  show "returns (browser_press_key E key)"
    unfolding browser_press_key_def
    by (simp add: returns_return returns_bind returns_try eb)
qed

lemma returns_scroll_one_step:
  assumes "lifecycle_ok E" and "str_digits_ok step"
  shows "returns (browser_scroll_one_step E step)"
proof -
  have f: "returns (fstring step)"
    using assms(2) by (simp add: fstring_def returns_return)
  show ?thesis
    unfolding browser_scroll_one_step_def
    by (simp add: returns_return returns_bind returns_try f
        returns_ensure_browser [OF assms(1)])
qed

lemma returns_save_page_screenshot:
  assumes "lifecycle_ok E" and "\<not> truthy file_path \<or> isinstance_str file_path"
  shows "returns (save_page_screenshot E file_path)"
proof -
  have "returns (if \<not> truthy file_path
              then io_bind (timestamp E) (\<lambda>ts.
                     io_return (path_join (work_dir E) (''screenshot_'' @ ts @ ''.png'')))
              else (case file_path of
                      PStr s \<Rightarrow> io_return s
                    | _ \<Rightarrow> io_raise (TypeError ''expected str, bytes or os.PathLike object'')))"
    using assms(2)
    by (cases file_path) (simp_all add: returns_return returns_bind returns_timestamp)
  then show ?thesis
    unfolding save_page_screenshot_def
    by (simp add: returns_return returns_bind returns_try returns_ensure_browser [OF assms(1)])
qed

lemma io_bind_fail:
  "f s = (Inl e, s') \<Longrightarrow> io_bind f g s = (Inl e, s')"
  by (simp add: io_bind_def)

text \<open>
  No tool catches what \<^verbatim>\<open>ensure_browser\<close> raises: it is called outside every \<^verbatim>\<open>try\<close>
  block.
\<close>

lemma acquisition_failure_propagates:
  assumes "ensure_browser E s = (Inl e, s')" and "\<not> malformed a" and "acquires_first a"
  shows "dispatch E a s = (Inl e, s')"
  using assms(2,3) nonempty_string_valid
  by (cases a)
     (auto simp: io_bind_fail [where f = "ensure_browser E", OF assms(1)] Let_def
        browser_navigate_def browser_fill_def browser_find_by_xpath_def browser_go_back_def
        browser_reload_def browser_click_def browser_screenshot_def browser_scroll_to_top_def
        browser_scroll_to_bottom_def browser_scroll_to_element_def get_current_url_def
        get_element_html_def get_element_text_def get_page_content_def get_page_html_def
        get_page_title_def save_element_as_html_def save_page_as_html_def
        save_page_screenshot_def clear_field_def browser_press_key_def
        browser_scroll_one_step_def clear_browser_data_def get_cookies_def)

text \<open>The tools without a handler hand the exception of their page call on.\<close>

lemma unhandled_page_failure:
  assumes "ensure_browser E s = (Inr pg, (m, tr))"
  shows "raises E tr (GoBack pg) = Some e \<Longrightarrow>
           browser_go_back E s = (Inl e, (m, tr @ [GoBack pg]))"
    and "raises E tr (Reload pg) = Some e \<Longrightarrow>
           browser_reload E s = (Inl e, (m, tr @ [Reload pg]))"
    and "raises E tr (Evaluate pg BodyInnerText) = Some e \<Longrightarrow>
           get_page_content E s = (Inl e, (m, tr @ [Evaluate pg BodyInnerText]))"
    and "raises E tr (Content pg) = Some e \<Longrightarrow>
           get_page_html E s = (Inl e, (m, tr @ [Content pg]))"
    and "raises E tr (Title pg) = Some e \<Longrightarrow>
           get_page_title E s = (Inl e, (m, tr @ [Title pg]))"
    and "raises E tr (ClearCookies pg) = Some e \<Longrightarrow>
           clear_browser_data E s = (Inl e, (m, tr @ [ClearCookies pg]))"
  using assms
  by (simp_all add: browser_go_back_def browser_reload_def get_page_content_def
      get_page_html_def get_page_title_def clear_browser_data_def io_bind_def engine_call_def
      engine_text_def engine_ask_cases)

text \<open>
  \<^verbatim>\<open>browser_scroll_to_bottom\<close> catches the exception of the page and raises a
  \<^verbatim>\<open>ValueError\<close> in its place; \<^verbatim>\<open>get_cookies\<close> never returns a value.
\<close>

lemma scroll_to_bottom_raises:
  assumes "ensure_browser E s = (Inr pg, (m, tr))"
    and "raises E tr (Evaluate pg ScrollBottom) = Some e"
  shows "browser_scroll_to_bottom E s =
     (Inl (ValueError (''Failed to scroll to bottom: '' @ exn_str e)),
      (m, tr @ [Evaluate pg ScrollBottom]))"
  using assms
  by (simp add: browser_scroll_to_bottom_def io_bind_def io_try_def io_raise_def
      engine_call_def engine_ask_cases)

text \<open>
  A step that is too long to print makes \<^verbatim>\<open>browser_scroll_one_step\<close> end with the
  \<^verbatim>\<open>ValueError\<close> of the conversion, after the page is acquired and before any scroll.
\<close>

lemma scroll_one_step_digit_limit:
  assumes "ensure_browser E s = (Inr pg, (m, tr))"
    and "4300 < length (digits (nat \<bar>i\<bar>))"
  shows "browser_scroll_one_step E (PInt i) s =
     (Inl (ValueError ''Exceeds the limit (4300 digits) for integer string conversion''),
      (m, tr))"
  using assms
  by (simp add: browser_scroll_one_step_def fstring_def io_bind_def io_raise_def)

lemma get_cookies_raises:
  "\<exists>e s'. get_cookies E s = (Inl e, s')"
proof -
  obtain r s1 where a: "ensure_browser E s = (r, s1)" by (cases "ensure_browser E s")
  obtain m tr where s1: "s1 = (m, tr)" by (cases s1)
  show ?thesis
  proof (cases r)
    case (Inl e)
    with a show ?thesis by (simp add: get_cookies_def io_bind_def)
  next
    case (Inr pg)
    with a s1 show ?thesis
      by (cases "raises E tr (Cookies pg)")
         (simp_all add: get_cookies_def io_bind_def io_raise_def engine_text_def engine_ask_cases)
  qed
qed

lemma no_match_env_lifecycle:
  "lifecycle_ok no_match_env"
  unfolding lifecycle_ok_def
proof (intro allI impI)
  fix tr op
  assume "lifecycle_op op"
  then show "raises no_match_env tr op = None"
    by (cases op) (simp_all add: no_match_env_def quiet_env_def)
qed

text \<open>
  C2 (as amended). When no call that builds or tears down the session raises, each of the
  tools marked \<open>contained\<close> returns a string on every input: whatever the page, the file
  system or the process table raises inside the tool is turned into a message.
\<close>

theorem contained_actions_return:
  assumes "lifecycle_ok E" and "contained a"
  shows "\<exists>r s'. dispatch E a s = (Inr r, s')"
proof -
  have "returns (dispatch E a)"
    using assms(2)
    by (cases a)
       (simp_all add: returns_tools [OF assms(1)] returns_save_page_screenshot [OF assms(1)]
          returns_scroll_one_step [OF assms(1)])
  then show ?thesis by (rule returnsD)
qed

theorem contained_actions_return_witness:
  "lifecycle_ok no_match_env \<and> contained (Browser_Click (PStr ''#missing'')) \<and>
   (\<exists>r s'. dispatch no_match_env (Browser_Click (PStr ''#missing'')) (pw_manager, [])
      = (Inr r, s')) \<and>
   dispatch no_match_env (Browser_Click (PStr ''#missing'')) (ready_manager, ready_trace) =
     (Inr ''Could not click element: Timeout 5000ms exceeded.'',
      (ready_manager, ready_trace @ [Click 3 ''#missing'']))"
proof -
  have c: "contained (Browser_Click (PStr ''#missing''))" by simp
  have d: "dispatch no_match_env (Browser_Click (PStr ''#missing'')) (ready_manager, ready_trace) =
     (Inr ''Could not click element: Timeout 5000ms exceeded.'',
      (ready_manager, ready_trace @ [Click 3 ''#missing'']))"
    using click_result [OF ensure_browser_ready_session, where E = no_match_env
      and sel = "PStr ''#missing''"]
    by (simp add: no_match_env_facts nonempty_string_def)
  from no_match_env_lifecycle c
    contained_actions_return [OF no_match_env_lifecycle c, of "(pw_manager, [])"] d
  show ?thesis by (intro conjI)
qed

text \<open>
  When the driver cannot be started, \<^verbatim>\<open>browser_click\<close> ends with the exception of
  \<^verbatim>\<open>ensure_browser\<close>; when \<^verbatim>\<open>page.go_back\<close> raises, \<^verbatim>\<open>browser_go_back\<close> ends with that
  exception.
\<close>

theorem exceptions_escape_counterexample:
  "dispatch start_fails_env (Browser_Click (PStr ''#submit'')) (pw_manager, []) =
     (Inl (EngineError ''Executable does not exist''), (pw_manager, [Start])) \<and>
   dispatch go_back_fails_env Browser_Go_Back (ready_manager, ready_trace) =
     (Inl (EngineError ''Timeout 30000ms exceeded.''),
      (ready_manager, ready_trace @ [GoBack 3]))"
proof -
  have "ensure_browser start_fails_env (pw_manager, []) =
      (Inl (EngineError ''Executable does not exist''), (pw_manager, [Start]))"
    by (simp add: ensure_defs io_defs start_fails_env_def quiet_env_def pw_manager_def)
  then have a: "dispatch start_fails_env (Browser_Click (PStr ''#submit'')) (pw_manager, []) =
     (Inl (EngineError ''Executable does not exist''), (pw_manager, [Start]))"
    by (rule acquisition_failure_propagates) (simp_all add: nonempty_string_def)
  have "raises go_back_fails_env ready_trace (GoBack 3)
      = Some (EngineError ''Timeout 30000ms exceeded.'')"
    by (simp add: go_back_fails_env_def quiet_env_def)
  with unhandled_page_failure(1) [OF ensure_browser_ready_session]
  have b: "dispatch go_back_fails_env Browser_Go_Back (ready_manager, ready_trace) =
     (Inl (EngineError ''Timeout 30000ms exceeded.''),
      (ready_manager, ready_trace @ [GoBack 3]))"
    by simp
  from a b show ?thesis by (rule conjI)
qed

end
